theory Spec2Isabelle
  imports Main
begin

section \<open>The Ledger connector of \<^verbatim>\<open>src/index.ts\<close>\<close>

text \<open>
  The class \<^verbatim>\<open>LedgerConnector\<close> is embedded by explicit state passing. A method
  becomes a function from the state before the call to the outcome of the returned promise
  (\<open>Inl\<close> a rejection, \<open>Inr\<close> the value it resolves to) paired with the state after.
  Everything the class reaches outside itself (the Connect Kit, the transport handle, the
  address and chain id helpers of ethers and wagmi) is a field of the record \<open>world\<close>,
  so every theorem holds for each behaviour of these collaborators. The debug logging
  (the calls of \<^verbatim>\<open>log\<close> and \<^verbatim>\<open>logError\<close>, the option \<^verbatim>\<open>enableDebugLogs\<close>) is left
  out: it returns nothing and changes no state of the connector. \<^verbatim>\<open>getSigner\<close> is not
  embedded; it only composes \<^verbatim>\<open>getProvider\<close> and \<^verbatim>\<open>getAccount\<close>.
\<close>

subsection \<open>Thrown values\<close>

text \<open>
  What a \<^verbatim>\<open>catch\<close> clause of the connector looks at in a thrown value: its
  \<^verbatim>\<open>code\<close> property (absent, a number or a string), whether it is an
  \<^verbatim>\<open>instanceof Error\<close>, and its \<^verbatim>\<open>String(...)\<close> rendering. A promise can also
  reject with \<^verbatim>\<open>undefined\<close> or \<^verbatim>\<open>null\<close>, which have no properties: to read
  \<^verbatim>\<open>code\<close> from one of them throws a \<^verbatim>\<open>TypeError\<close>, so \<open>code\<close> returns
  \<open>None\<close> there. \<^verbatim>\<open>UserRejectedRequestError\<close> is the class of wagmi that wraps its
  cause and carries the code 4001.
\<close>

datatype js_code = NoCode | NumCode int | StrCode string

datatype thrown =
    Undefined
  | Null
  | Thrown js_code bool string
  | UserRejectedRequestError thrown

fun code :: "thrown \<Rightarrow> js_code option" where
  "code Undefined = None"
| "code Null = None"
| "code (Thrown c _ _) = Some c"
| "code (UserRejectedRequestError _) = Some (NumCode 4001)"

fun instanceof_Error :: "thrown \<Rightarrow> bool" where
  "instanceof_Error Undefined = False"
| "instanceof_Error Null = False"
| "instanceof_Error (Thrown _ b _) = b"
| "instanceof_Error (UserRejectedRequestError _) = True"

fun String :: "thrown \<Rightarrow> string" where
  "String Undefined = ''undefined''"
| "String Null = ''null''"
| "String (Thrown _ _ t) = t"
| "String (UserRejectedRequestError _) = ''UserRejectedRequestError: User rejected request''"

text \<open>
  What the runtime throws when a property is read from \<^verbatim>\<open>undefined\<close> or
  \<^verbatim>\<open>null\<close>.
\<close>

definition TypeError :: "thrown \<Rightarrow> thrown" where
  "TypeError e = Thrown NoCode True (''TypeError: Cannot read properties of '' @ String e)"

text \<open>\<^verbatim>\<open>new Error(msg)\<close>: an \<^verbatim>\<open>Error\<close> without a code.\<close>

definition new_Error :: "string \<Rightarrow> thrown" where
  "new_Error msg = Thrown NoCode True (''Error: '' @ msg)"

text \<open>
  What the runtime throws when \<^verbatim>\<open>localStorage\<close> is read as a variable in an
  environment that does not define it.
\<close>

definition ReferenceError :: thrown where
  "ReferenceError = Thrown NoCode True ''ReferenceError: localStorage is not defined''"

text \<open>
  What \<^verbatim>\<open>getAddress\<close> of ethers throws on an argument that is not a string
  (\<^verbatim>\<open>accounts[0]\<close> of an empty array is \<^verbatim>\<open>undefined\<close>).
\<close>

definition invalid_address :: thrown where
  "invalid_address = Thrown (StrCode ''INVALID_ARGUMENT'') True ''Error: invalid address''"

subsection \<open>Data model\<close>

text \<open>
  \<^verbatim>\<open>SupportedProviderImplementations\<close> of the Connect Kit loader. \<open>LedgerConnect\<close>
  is the Ledger Connect browser extension (the direct bridge), \<open>WalletConnect\<close> the
  relay-based bridge to Ledger Live.
\<close>

datatype SupportedProviderImplementations = LedgerConnect | WalletConnect

text \<open>
  The \<^verbatim>\<open>EthereumProvider\<close> handle as the connector sees it: an identity, and whether
  the members \<^verbatim>\<open>on\<close> and \<^verbatim>\<open>removeListener\<close> are there (the connector tests both
  before it calls them).
\<close>

record EthereumProvider =
  ident :: nat
  has_on :: bool
  has_removeListener :: bool

record Chain =
  chain_id :: int
  chain_name :: string

text \<open>
  The constructor's arguments. \<^verbatim>\<open>shimDisconnect?: boolean\<close> is optional, and the
  code tests it for truthiness.
\<close>

record config =
  chains :: "Chain list"
  shimDisconnect :: "bool option"

definition shim_enabled :: "config \<Rightarrow> bool" where
  "shim_enabled c = (shimDisconnect c = Some True)"

datatype raw_chain_id = Num int | Str string

datatype event = AccountsChanged | ChainChanged | DisconnectEvent

text \<open>
  The signals of the connector: \<^verbatim>\<open>emit('message', {type})\<close>,
  \<^verbatim>\<open>emit('change', {account?, chain?})\<close> with the chain as the pair of its id and
  \<^verbatim>\<open>unsupported\<close>, and \<^verbatim>\<open>emit('disconnect')\<close>.
\<close>

datatype signal =
    Message string
  | Change "string option" "(int \<times> bool) option"
  | Disconnect

text \<open>
  The collaborators. An answer that may differ from call to call is indexed by the number
  of earlier calls of the same kind: \<open>checkSupport\<close> by the earlier support checks,
  \<open>kit_getProvider\<close> (\<^verbatim>\<open>connectKit.getProvider()\<close>) by the earlier resolutions,
  \<open>provider_disconnect\<close> by the earlier disconnects of the handle, and the three RPC
  methods of \<^verbatim>\<open>provider.request\<close> by the number of requests sent before.
  \<open>connectKit\<close> is the outcome of the one promise \<^verbatim>\<open>loadConnectKit()\<close> that the
  constructor stores. The answer of \<open>provider_disconnect\<close> (\<^verbatim>\<open>provider.disconnect()\<close>)
  is the outcome of its promise and whether the handle, while it disconnects, emits its
  \<^verbatim>\<open>disconnect\<close> event to the listeners registered on it.
\<close>

record world =
  connectKit :: "thrown + unit"
  checkSupport :: "nat \<Rightarrow> int option \<Rightarrow> thrown + SupportedProviderImplementations"
  kit_getProvider :: "nat \<Rightarrow> thrown + EthereumProvider"
  provider_disconnect :: "nat \<Rightarrow> (thrown + unit) \<times> bool"
  eth_requestAccounts :: "nat \<Rightarrow> thrown + string list"
  eth_accounts :: "nat \<Rightarrow> thrown + string list"
  eth_chainId :: "nat \<Rightarrow> thrown + raw_chain_id"
  getAddress :: "string \<Rightarrow> thrown + string"
  normalizeChainId :: "raw_chain_id \<Rightarrow> int"

text \<open>
  The state: the private fields \<^verbatim>\<open>#provider\<close> and
  \<^verbatim>\<open>#providerImplementation\<close>, the browser's \<^verbatim>\<open>localStorage\<close> (\<open>None\<close> where
  \<^verbatim>\<open>typeof localStorage\<close> is \<^verbatim>\<open>'undefined'\<close>), the handlers of the connector
  registered on the handle, and the trace of what the connector did to the outside: the
  signals emitted, the RPC methods requested, and the numbers of resolutions, support
  checks and disconnects of the handle.
\<close>

record state =
  provider :: "EthereumProvider option"
  providerImplementation :: "SupportedProviderImplementations option"
  localStorage :: "(string \<rightharpoonup> string) option"
  listeners :: "event list"
  emitted :: "signal list"
  requests :: "string list"
  resolutions :: nat
  supportChecks :: nat
  disconnects :: nat

text \<open>The value \<^verbatim>\<open>connect()\<close> resolves to.\<close>

record ConnectorData =
  account :: string
  chain :: "int \<times> bool"
  web3Provider :: EthereumProvider

definition shimDisconnectKey :: string where
  "shimDisconnectKey = ''ledger.shimDisconnect''"

text \<open>The Disconnect Shim Flag is present: storage holds an item under the key.\<close>

definition shim_flag_present :: "state \<Rightarrow> bool" where
  "shim_flag_present s =
     (case localStorage s of None \<Rightarrow> False
      | Some st \<Rightarrow> st shimDisconnectKey \<noteq> None)"

text \<open>
  \<^verbatim>\<open>localStorage.getItem(key)\<close> used as a condition: \<^verbatim>\<open>null\<close> and the empty string
  are falsy.
\<close>

definition getItem_truthy :: "(string \<rightharpoonup> string) \<Rightarrow> string \<Rightarrow> bool" where
  "getItem_truthy st k = (case st k of None \<Rightarrow> False | Some v \<Rightarrow> v \<noteq> [])"

definition emit :: "signal \<Rightarrow> state \<Rightarrow> state" where
  "emit sig s = s\<lparr>emitted := emitted s @ [sig]\<rparr>"

text \<open>
  Modelled from the spec: \<^verbatim>\<open>isChainUnsupported\<close> is a method of the base class
  \<^verbatim>\<open>Connector\<close> of wagmi, which is not among the sources. The spec: \<^verbatim>\<open>unsupported\<close>
  is "chain id not present in the configured supported-chain list".
\<close>

definition isChainUnsupported :: "config \<Rightarrow> int \<Rightarrow> bool" where
  "isChainUnsupported c i = (\<not> list_ex (\<lambda>x. chain_id x = i) (chains c))"

subsection \<open>Operations\<close>

text \<open>\<^verbatim>\<open>getProvider\<close>, lines 219 to 229: the handle is resolved once and cached.\<close>

definition getProvider :: "world \<Rightarrow> state \<Rightarrow> (thrown + EthereumProvider) \<times> state" where
  "getProvider w s =
     (case provider s of
        Some p \<Rightarrow> (Inr p, s)
      | None \<Rightarrow>
          (case connectKit w of
             Inl e \<Rightarrow> (Inl e, s)
           | Inr _ \<Rightarrow>
               (case kit_getProvider w (resolutions s) of
                  Inl e \<Rightarrow> (Inl e, s\<lparr>resolutions := Suc (resolutions s)\<rparr>)
                | Inr p \<Rightarrow>
                    (Inr p, s\<lparr>resolutions := Suc (resolutions s), provider := Some p\<rparr>))))"

text \<open>\<^verbatim>\<open>getAccount\<close>, lines 194 to 205.\<close>

definition getAccount :: "world \<Rightarrow> state \<Rightarrow> (thrown + string) \<times> state" where
  "getAccount w s =
     (case getProvider w s of
        (Inl e, s1) \<Rightarrow> (Inl e, s1)
      | (Inr p, s1) \<Rightarrow>
          (let s2 = s1\<lparr>requests := requests s1 @ [''eth_requestAccounts'']\<rparr> in
           case eth_requestAccounts w (length (requests s1)) of
             Inl e \<Rightarrow> (Inl e, s2)
           | Inr accounts \<Rightarrow>
               (case accounts of
                  [] \<Rightarrow> (Inl invalid_address, s2)
                | a # _ \<Rightarrow> (getAddress w a, s2))))"

text \<open>\<^verbatim>\<open>getChainId\<close>, lines 207 to 217.\<close>

definition getChainId :: "world \<Rightarrow> state \<Rightarrow> (thrown + int) \<times> state" where
  "getChainId w s =
     (case getProvider w s of
        (Inl e, s1) \<Rightarrow> (Inl e, s1)
      | (Inr p, s1) \<Rightarrow>
          (let s2 = s1\<lparr>requests := requests s1 @ [''eth_chainId'']\<rparr> in
           case eth_chainId w (length (requests s1)) of
             Inl e \<Rightarrow> (Inl e, s2)
           | Inr chainId \<Rightarrow> (Inr (normalizeChainId w chainId), s2)))"

text \<open>
  The \<^verbatim>\<open>try\<close> block of \<^verbatim>\<open>connect\<close>, lines 93 to 146. The unguarded
  \<^verbatim>\<open>localStorage.setItem\<close> throws where there is no \<^verbatim>\<open>localStorage\<close>.
\<close>

definition connect_try ::
  "config \<Rightarrow> world \<Rightarrow> int option \<Rightarrow> state \<Rightarrow> (thrown + ConnectorData) \<times> state" where
  "connect_try c w chainId s =
     (case connectKit w of
        Inl e \<Rightarrow> (Inl e, s)
      | Inr _ \<Rightarrow>
          (case checkSupport w (supportChecks s) chainId of
             Inl e \<Rightarrow> (Inl e, s\<lparr>supportChecks := Suc (supportChecks s)\<rparr>)
           | Inr impl \<Rightarrow>
               (case getProvider w
                       (s\<lparr>supportChecks := Suc (supportChecks s),
                          providerImplementation := Some impl\<rparr>) of
                  (Inl e, s2) \<Rightarrow> (Inl e, s2)
                | (Inr p, s2) \<Rightarrow>
                    (let s3 = (if has_on p
                               then s2\<lparr>listeners := listeners s2 @
                                         [AccountsChanged, ChainChanged, DisconnectEvent]\<rparr>
                               else s2);
                         s4 = emit (Message ''connecting'') s3
                     in case getAccount w s4 of
                          (Inl e, s5) \<Rightarrow> (Inl e, s5)
                        | (Inr acc, s5) \<Rightarrow>
                            (case getChainId w s5 of
                               (Inl e, s6) \<Rightarrow> (Inl e, s6)
                             | (Inr i, s6) \<Rightarrow>
                                 (let unsupported = isChainUnsupported c i;
                                      res = \<lparr>account = acc, chain = (i, unsupported),
                                             web3Provider = p\<rparr>
                                  in if shim_enabled c \<and>
                                        providerImplementation s6 = Some LedgerConnect
                                     then (case localStorage s6 of
                                             None \<Rightarrow> (Inl ReferenceError, s6)
                                           | Some st \<Rightarrow>
                                               (Inr res,
                                                s6\<lparr>localStorage :=
                                                     Some (st(shimDisconnectKey \<mapsto> ''true''))\<rparr>))
                                     else (Inr res, s6)))))))"

text \<open>
  The \<^verbatim>\<open>catch\<close> clause of \<^verbatim>\<open>connect\<close>, lines 147 to 159: what \<^verbatim>\<open>connect\<close>
  rejects with when the \<^verbatim>\<open>try\<close> block threw \<open>e\<close>. Line 148 reads
  \<^verbatim>\<open>error.code\<close> before any test of the value, so on \<^verbatim>\<open>undefined\<close> and
  \<^verbatim>\<open>null\<close> the clause itself throws.
\<close>

definition connect_catch :: "thrown \<Rightarrow> thrown" where
  "connect_catch e =
     (case code e of
        None \<Rightarrow> TypeError e
      | Some k \<Rightarrow>
          (if k = NumCode 4001 then UserRejectedRequestError e
           else if k = NumCode (- 32002)
                then (if instanceof_Error e then e else new_Error (String e))
           else e))"

definition connect ::
  "config \<Rightarrow> world \<Rightarrow> int option \<Rightarrow> state \<Rightarrow> (thrown + ConnectorData) \<times> state" where
  "connect c w chainId s =
     (case connect_try c w chainId s of
        (Inl e, s') \<Rightarrow> (Inl (connect_catch e), s')
      | (Inr r, s') \<Rightarrow> (Inr r, s'))"

text \<open>
  The handlers, lines 269 to 292. \<^verbatim>\<open>onAccountsChanged\<close> throws what
  \<^verbatim>\<open>getAddress\<close> throws, before it emits.
\<close>

definition onAccountsChanged :: "world \<Rightarrow> string list \<Rightarrow> state \<Rightarrow> (thrown + unit) \<times> state" where
  "onAccountsChanged w accounts s =
     (case accounts of
        [] \<Rightarrow> (Inr (), emit Disconnect s)
      | a # _ \<Rightarrow>
          (case getAddress w a of
             Inl e \<Rightarrow> (Inl e, s)
           | Inr acc \<Rightarrow> (Inr (), emit (Change (Some acc) None) s)))"

definition onChainChanged ::
  "config \<Rightarrow> world \<Rightarrow> raw_chain_id \<Rightarrow> state \<Rightarrow> (thrown + unit) \<times> state" where
  "onChainChanged c w chainId s =
     (let i = normalizeChainId w chainId;
          unsupported = isChainUnsupported c i
      in (Inr (), emit (Change None (Some (i, unsupported))) s))"

definition onDisconnect :: "config \<Rightarrow> state \<Rightarrow> (thrown + unit) \<times> state" where
  "onDisconnect c s =
     (let s1 = emit Disconnect s in
      if shim_enabled c
      then (case localStorage s1 of
              None \<Rightarrow> (Inr (), s1)
            | Some st \<Rightarrow>
                (Inr (), s1\<lparr>localStorage := Some (st(shimDisconnectKey := None))\<rparr>))
      else (Inr (), s1))"

text \<open>
  The handle emits its \<^verbatim>\<open>disconnect\<close> event: every registration of
  \<^verbatim>\<open>onDisconnect\<close> on the handle runs, in turn.
\<close>

definition provider_emits_disconnect :: "config \<Rightarrow> state \<Rightarrow> state" where
  "provider_emits_disconnect c s =
     fold (\<lambda>_ t. snd (onDisconnect c t))
       (filter (\<lambda>ev. ev = DisconnectEvent) (listeners s)) s"

text \<open>
  Lines 176 to 181 of \<^verbatim>\<open>disconnect\<close>: \<^verbatim>\<open>removeListener\<close> takes one registration
  of each handler away, if the handle has the member.
\<close>

definition removeListeners :: "EthereumProvider \<Rightarrow> state \<Rightarrow> state" where
  "removeListeners p s =
     (if has_removeListener p
      then s\<lparr>listeners :=
               remove1 DisconnectEvent
                 (remove1 ChainChanged (remove1 AccountsChanged (listeners s)))\<rparr>
      else s)"

text \<open>
  \<^verbatim>\<open>disconnect\<close>, lines 162 to 192. The handle's own \<^verbatim>\<open>disconnect\<close> is awaited
  at line 173, while the handlers of the connector are still registered (they are removed
  at lines 178 to 180): when the handle emits its \<^verbatim>\<open>disconnect\<close> event during the
  call, \<^verbatim>\<open>onDisconnect\<close> runs, whether the call then resolves or rejects.
\<close>

definition disconnect :: "config \<Rightarrow> world \<Rightarrow> state \<Rightarrow> (thrown + unit) \<times> state" where
  "disconnect c w s =
     (case getProvider w s of
        (Inl e, s1) \<Rightarrow> (Inl e, s1)
      | (Inr p, s1) \<Rightarrow>
          (case (if providerImplementation s1 = Some WalletConnect
                 then (case provider_disconnect w (disconnects s1) of
                         (res, emits) \<Rightarrow>
                           (res,
                            if emits
                            then provider_emits_disconnect c
                                   (s1\<lparr>disconnects := Suc (disconnects s1)\<rparr>)
                            else s1\<lparr>disconnects := Suc (disconnects s1)\<rparr>))
                 else (Inr (), s1)) of
             (Inl e, s2) \<Rightarrow> (Inl e, s2)
           | (Inr _, s2) \<Rightarrow>
               (let s3 = removeListeners p s2
                in if shim_enabled c \<and> providerImplementation s3 = Some LedgerConnect
                   then (case localStorage s3 of
                           None \<Rightarrow> (Inr (), s3)
                         | Some st \<Rightarrow>
                             (Inr (),
                              s3\<lparr>localStorage := Some (st(shimDisconnectKey := None))\<rparr>))
                   else (Inr (), s3))))"

text \<open>The \<^verbatim>\<open>try\<close> block of \<^verbatim>\<open>isAuthorized\<close>, lines 247 to 263.\<close>

definition isAuthorized_try :: "config \<Rightarrow> world \<Rightarrow> state \<Rightarrow> (thrown + bool) \<times> state" where
  "isAuthorized_try c w s =
     (if shim_enabled c \<and>
         (case localStorage s of
            None \<Rightarrow> False
          | Some st \<Rightarrow> getItem_truthy st shimDisconnectKey)
      then (Inr False, s)
      else (case getProvider w s of
              (Inl e, s1) \<Rightarrow> (Inl e, s1)
            | (Inr p, s1) \<Rightarrow>
                (let s2 = s1\<lparr>requests := requests s1 @ [''eth_accounts'']\<rparr> in
                 case eth_accounts w (length (requests s1)) of
                   Inl e \<Rightarrow> (Inl e, s2)
                 | Inr accounts \<Rightarrow>
                     (case accounts of
                        [] \<Rightarrow> (Inr False, s2)
                      | a # _ \<Rightarrow> (Inr (a \<noteq> []), s2)))))"

text \<open>\<^verbatim>\<open>isAuthorized\<close>, lines 243 to 267: the \<^verbatim>\<open>catch\<close> clause returns false.\<close>

definition isAuthorized :: "config \<Rightarrow> world \<Rightarrow> state \<Rightarrow> (thrown + bool) \<times> state" where
  "isAuthorized c w s =
     (case isAuthorized_try c w s of
        (Inl e, s') \<Rightarrow> (Inr False, s')
      | (Inr b, s') \<Rightarrow> (Inr b, s'))"

subsection \<open>A concrete configuration and concrete collaborators\<close>

text \<open>
  Inputs on which the operations are evaluated below: a handle with both optional members,
  a Connect Kit that loads and reports the given implementation, a transport that answers
  every request with one account and chain \<^verbatim>\<open>0x1\<close> and emits its \<^verbatim>\<open>disconnect\<close>
  event when it is disconnected, a configuration with the shim
  enabled, and the state of a connector right after its constructor, over a given storage.
\<close>

definition demo_handle :: EthereumProvider where
  "demo_handle = \<lparr>ident = 0, has_on = True, has_removeListener = True\<rparr>"

definition demo_address :: string where
  "demo_address = ''0x52908400098527886e0f7030069857d2e4169ee7''"

definition demo_checksum :: string where
  "demo_checksum = ''0x52908400098527886E0F7030069857D2E4169EE7''"

definition demo_world :: "SupportedProviderImplementations \<Rightarrow> world" where
  "demo_world impl =
     \<lparr>connectKit = Inr (),
      checkSupport = (\<lambda>_ _. Inr impl),
      kit_getProvider = (\<lambda>_. Inr demo_handle),
      provider_disconnect = (\<lambda>_. (Inr (), True)),
      eth_requestAccounts = (\<lambda>_. Inr [demo_address]),
      eth_accounts = (\<lambda>_. Inr [demo_address]),
      eth_chainId = (\<lambda>_. Inr (Str ''0x1'')),
      getAddress = (\<lambda>a. if a = demo_address then Inr demo_checksum else Inl invalid_address),
      normalizeChainId = (\<lambda>r. case r of Num n \<Rightarrow> n | Str _ \<Rightarrow> 1)\<rparr>"

definition demo_config :: config where
  "demo_config =
     \<lparr>chains = [\<lparr>chain_id = 1, chain_name = ''Ethereum''\<rparr>,
                \<lparr>chain_id = 137, chain_name = ''Polygon''\<rparr>],
      shimDisconnect = Some True\<rparr>"

definition constructed :: "(string \<rightharpoonup> string) option \<Rightarrow> state" where
  "constructed st =
     \<lparr>provider = None, providerImplementation = None, localStorage = st,
      listeners = [], emitted = [], requests = [], resolutions = 0,
      supportChecks = 0, disconnects = 0\<rparr>"

text \<open>
  Thrown values of a transport: a plain object with the code of a user rejection, one with
  the code of a pending request, and an \<^verbatim>\<open>Error\<close> without a code.
\<close>

definition user_rejection :: thrown where
  "user_rejection = Thrown (NumCode 4001) False ''[object Object]''"

definition resource_unavailable :: thrown where
  "resource_unavailable = Thrown (NumCode (- 32002)) False ''[object Object]''"

definition resolver_failure :: thrown where
  "resolver_failure = Thrown NoCode True ''Error: no provider''"

text \<open>
  Collaborators as \<open>demo_world\<close>, but the user rejects the request for accounts, and
  the handle's own \<^verbatim>\<open>disconnect\<close> rejects, without emitting.
\<close>

definition rejecting_world :: "SupportedProviderImplementations \<Rightarrow> world" where
  "rejecting_world impl =
     (demo_world impl)
       \<lparr>eth_requestAccounts := \<lambda>_. Inl user_rejection,
        provider_disconnect := \<lambda>_. (Inl resource_unavailable, False)\<rparr>"

section \<open>Properties\<close>

lemmas demo_defs = demo_handle_def demo_address_def demo_checksum_def demo_world_def
  demo_config_def constructed_def

lemmas op_defs = connect_def connect_try_def getAccount_def getChainId_def getProvider_def
  disconnect_def removeListeners_def provider_emits_disconnect_def onDisconnect_def
  emit_def shim_enabled_def shim_flag_present_def isChainUnsupported_def

subsection \<open>What the accessors change\<close>

lemma getProvider_cached: "provider s = Some p \<Longrightarrow> getProvider w s = (Inr p, s)"
  by (simp add: getProvider_def)

lemma getProvider_frame:
  assumes "getProvider w s = (r, s')"
  shows "localStorage s' = localStorage s \<and> providerImplementation s' = providerImplementation s \<and>
         listeners s' = listeners s \<and> emitted s' = emitted s \<and> requests s' = requests s \<and>
         supportChecks s' = supportChecks s \<and> disconnects s' = disconnects s"
  using assms by (auto simp: getProvider_def split: option.splits sum.splits)

lemma getProvider_Inr:
  assumes "getProvider w s = (Inr p, s')"
  shows "provider s' = Some p"
  using assms by (auto simp: getProvider_def split: option.splits sum.splits)

lemma getAccount_Inr:
  assumes "getAccount w s = (Inr a, s')"
  shows "\<exists>p s1 x xs. getProvider w s = (Inr p, s1) \<and>
           eth_requestAccounts w (length (requests s1)) = Inr (x # xs) \<and>
           getAddress w x = Inr a \<and>
           s' = s1\<lparr>requests := requests s1 @ [''eth_requestAccounts'']\<rparr>"
  using assms
  by (auto simp: getAccount_def Let_def split: prod.splits sum.splits list.splits)

lemma getChainId_Inr:
  assumes "getChainId w s = (Inr i, s')"
  shows "\<exists>p s1 raw. getProvider w s = (Inr p, s1) \<and>
           eth_chainId w (length (requests s1)) = Inr raw \<and>
           i = normalizeChainId w raw \<and>
           s' = s1\<lparr>requests := requests s1 @ [''eth_chainId'']\<rparr>"
  using assms
  by (auto simp: getChainId_def Let_def split: prod.splits sum.splits)

lemma connect_try_Inr:
  assumes "connect_try c w chainId s = (Inr r, s')"
  shows "\<exists>impl p s2 s5 s6 acc i.
           connectKit w = Inr () \<and>
           checkSupport w (supportChecks s) chainId = Inr impl \<and>
           getProvider w (s\<lparr>supportChecks := Suc (supportChecks s),
                            providerImplementation := Some impl\<rparr>) = (Inr p, s2) \<and>
           getAccount w (emit (Message ''connecting'')
              (if has_on p
               then s2\<lparr>listeners := listeners s2 @
                         [AccountsChanged, ChainChanged, DisconnectEvent]\<rparr>
               else s2)) = (Inr acc, s5) \<and>
           getChainId w s5 = (Inr i, s6) \<and>
           r = \<lparr>account = acc, chain = (i, isChainUnsupported c i), web3Provider = p\<rparr> \<and>
           (if shim_enabled c \<and> providerImplementation s6 = Some LedgerConnect
            then \<exists>st. localStorage s6 = Some st \<and>
                   s' = s6\<lparr>localStorage := Some (st(shimDisconnectKey \<mapsto> ''true''))\<rparr>
            else s' = s6)"
  using assms unfolding connect_try_def Let_def
  by (auto split: sum.splits prod.splits option.splits if_split_asm split del: if_split)

lemma connect_Inr:
  "connect c w chainId s = (Inr r, s') \<longleftrightarrow> connect_try c w chainId s = (Inr r, s')"
  by (auto simp: connect_def split: prod.splits sum.splits)

lemma getAccount_frame:
  assumes "getAccount w s = (r, s')"
  shows "localStorage s' = localStorage s \<and> providerImplementation s' = providerImplementation s \<and>
         listeners s' = listeners s \<and> emitted s' = emitted s \<and>
         supportChecks s' = supportChecks s \<and> disconnects s' = disconnects s"
  using assms getProvider_frame [of w s]
  by (auto simp: getAccount_def Let_def split: prod.splits sum.splits list.splits)

lemma getChainId_frame:
  assumes "getChainId w s = (r, s')"
  shows "localStorage s' = localStorage s \<and> providerImplementation s' = providerImplementation s \<and>
         listeners s' = listeners s \<and> emitted s' = emitted s \<and>
         supportChecks s' = supportChecks s \<and> disconnects s' = disconnects s"
  using assms getProvider_frame [of w s]
  by (auto simp: getChainId_def Let_def split: prod.splits sum.splits)

lemma onDisconnect_frame:
  "provider (snd (onDisconnect c s)) = provider s \<and>
   providerImplementation (snd (onDisconnect c s)) = providerImplementation s \<and>
   listeners (snd (onDisconnect c s)) = listeners s \<and>
   requests (snd (onDisconnect c s)) = requests s \<and>
   resolutions (snd (onDisconnect c s)) = resolutions s \<and>
   supportChecks (snd (onDisconnect c s)) = supportChecks s \<and>
   disconnects (snd (onDisconnect c s)) = disconnects s"
  by (simp add: onDisconnect_def emit_def Let_def split: option.splits)

lemma onDisconnect_storage:
  "localStorage (snd (onDisconnect c s)) =
     (if shim_enabled c
      then map_option (\<lambda>st. st(shimDisconnectKey := None)) (localStorage s)
      else localStorage s)"
  by (simp add: onDisconnect_def emit_def Let_def split: option.splits)

lemma fold_onDisconnect_frame:
  "provider (fold (\<lambda>_ t. snd (onDisconnect c t)) xs s) = provider s \<and>
   providerImplementation (fold (\<lambda>_ t. snd (onDisconnect c t)) xs s) =
     providerImplementation s \<and>
   listeners (fold (\<lambda>_ t. snd (onDisconnect c t)) xs s) = listeners s \<and>
   requests (fold (\<lambda>_ t. snd (onDisconnect c t)) xs s) = requests s \<and>
   resolutions (fold (\<lambda>_ t. snd (onDisconnect c t)) xs s) = resolutions s \<and>
   supportChecks (fold (\<lambda>_ t. snd (onDisconnect c t)) xs s) = supportChecks s \<and>
   disconnects (fold (\<lambda>_ t. snd (onDisconnect c t)) xs s) = disconnects s"
proof (induction xs arbitrary: s)
  case Nil
  show ?case by simp
next
  case (Cons x xs)
  show ?case
    using Cons.IH [of "snd (onDisconnect c s)"] onDisconnect_frame [of c s] by simp
qed

lemma fold_onDisconnect_storage:
  "localStorage (fold (\<lambda>_ t. snd (onDisconnect c t)) xs s) =
     (if xs \<noteq> [] \<and> shim_enabled c
      then map_option (\<lambda>st. st(shimDisconnectKey := None)) (localStorage s)
      else localStorage s)"
proof (induction xs arbitrary: s)
  case Nil
  show ?case by simp
next
  case (Cons x xs)
  show ?case
    using Cons.IH [of "snd (onDisconnect c s)"]
    by (cases "localStorage s") (auto simp: onDisconnect_storage fun_eq_iff)
qed

lemma provider_emits_disconnect_frame:
  "provider (provider_emits_disconnect c s) = provider s \<and>
   providerImplementation (provider_emits_disconnect c s) = providerImplementation s \<and>
   listeners (provider_emits_disconnect c s) = listeners s \<and>
   requests (provider_emits_disconnect c s) = requests s \<and>
   resolutions (provider_emits_disconnect c s) = resolutions s \<and>
   supportChecks (provider_emits_disconnect c s) = supportChecks s \<and>
   disconnects (provider_emits_disconnect c s) = disconnects s"
  unfolding provider_emits_disconnect_def by (rule fold_onDisconnect_frame)

lemma provider_emits_disconnect_storage:
  "localStorage (provider_emits_disconnect c s) =
     (if DisconnectEvent \<in> set (listeners s) \<and> shim_enabled c
      then map_option (\<lambda>st. st(shimDisconnectKey := None)) (localStorage s)
      else localStorage s)"
  unfolding provider_emits_disconnect_def
  by (simp add: fold_onDisconnect_storage filter_empty_conv)

lemma removeListeners_frame:
  "provider (removeListeners p s) = provider s \<and>
   providerImplementation (removeListeners p s) = providerImplementation s \<and>
   localStorage (removeListeners p s) = localStorage s \<and>
   emitted (removeListeners p s) = emitted s \<and>
   requests (removeListeners p s) = requests s \<and>
   resolutions (removeListeners p s) = resolutions s \<and>
   supportChecks (removeListeners p s) = supportChecks s \<and>
   disconnects (removeListeners p s) = disconnects s"
  by (simp add: removeListeners_def)

lemma removeListeners_none: "listeners s = [] \<Longrightarrow> removeListeners p s = s"
  by (cases s) (simp add: removeListeners_def)


subsection \<open>The shim flag after \<open>connect\<close>\<close>

text \<open>
  C1 (as amended). For every successful \<open>connect\<close>: if the shim-disconnect option is
  enabled and the resolved transport is the direct-bridge kind (\<open>LedgerConnect\<close>), the
  Disconnect Shim Flag is present in storage afterwards, stored as \<^verbatim>\<open>'true'\<close>; if the
  resolved transport is the relay-mediated kind (\<open>WalletConnect\<close>), or the option is
  not enabled, \<open>connect\<close> leaves storage as it was. The resolved transport is the
  implementation that \<^verbatim>\<open>checkSupport\<close> reported to this call.
\<close>

theorem connect_shim_flag:
  assumes "connect c w chainId s = (Inr r, s')"
  shows "\<exists>impl. checkSupport w (supportChecks s) chainId = Inr impl \<and>
           providerImplementation s' = Some impl \<and>
           (shim_enabled c \<and> impl = LedgerConnect \<longrightarrow>
              shim_flag_present s' \<and>
              (\<exists>st. localStorage s = Some st \<and>
                 localStorage s' = Some (st(shimDisconnectKey \<mapsto> ''true'')))) \<and>
           (impl = WalletConnect \<or> \<not> shim_enabled c \<longrightarrow> localStorage s' = localStorage s)"
proof -
  from assms have "connect_try c w chainId s = (Inr r, s')"
    by (simp add: connect_Inr)
  from connect_try_Inr [OF this] obtain impl p s2 s5 s6 acc i where
    chk: "checkSupport w (supportChecks s) chainId = Inr impl" and
    gp: "getProvider w (s\<lparr>supportChecks := Suc (supportChecks s),
                          providerImplementation := Some impl\<rparr>) = (Inr p, s2)" and
    ga: "getAccount w (emit (Message ''connecting'')
              (if has_on p
               then s2\<lparr>listeners := listeners s2 @
                         [AccountsChanged, ChainChanged, DisconnectEvent]\<rparr>
               else s2)) = (Inr acc, s5)" and
    gc: "getChainId w s5 = (Inr i, s6)" and
    fin: "if shim_enabled c \<and> providerImplementation s6 = Some LedgerConnect
          then \<exists>st. localStorage s6 = Some st \<and>
                 s' = s6\<lparr>localStorage := Some (st(shimDisconnectKey \<mapsto> ''true''))\<rparr>
          else s' = s6"
    by blast
  have s2: "localStorage s2 = localStorage s \<and> providerImplementation s2 = Some impl"
    using getProvider_frame [OF gp] by simp
  have s5: "localStorage s5 = localStorage s \<and> providerImplementation s5 = Some impl"
    using getAccount_frame [OF ga] s2 by (simp add: emit_def)
  have s6: "localStorage s6 = localStorage s \<and> providerImplementation s6 = Some impl"
    using getChainId_frame [OF gc] s5 by simp
  have "providerImplementation s' = Some impl"
    using fin s6 by (auto split: if_split_asm)
  moreover have "shim_enabled c \<and> impl = LedgerConnect \<longrightarrow>
      shim_flag_present s' \<and>
      (\<exists>st. localStorage s = Some st \<and>
         localStorage s' = Some (st(shimDisconnectKey \<mapsto> ''true'')))"
    using fin s6 by (auto simp: shim_flag_present_def)
  moreover have "impl = WalletConnect \<or> \<not> shim_enabled c \<longrightarrow> localStorage s' = localStorage s"
    using fin s6 by (auto split: if_split_asm)
  ultimately show ?thesis using chk by blast
qed

text \<open>The theorem at the direct bridge, over an empty storage.\<close>

theorem connect_shim_flag_witness:
  "shim_enabled demo_config \<and>
   checkSupport (demo_world LedgerConnect) 0 None = Inr LedgerConnect \<and>
   fst (connect demo_config (demo_world LedgerConnect) None (constructed (Some Map.empty))) =
     Inr \<lparr>account = demo_checksum, chain = (1, False), web3Provider = demo_handle\<rparr> \<and>
   localStorage (snd (connect demo_config (demo_world LedgerConnect) None
                        (constructed (Some Map.empty)))) =
     Some [shimDisconnectKey \<mapsto> ''true'']"
proof -
  let ?s = "constructed (Some Map.empty)" and ?w = "demo_world LedgerConnect"
  have res: "fst (connect demo_config ?w None ?s) =
      Inr \<lparr>account = demo_checksum, chain = (1, False), web3Provider = demo_handle\<rparr>"
    by (simp add: demo_defs op_defs Let_def)
  then have run: "connect demo_config ?w None ?s =
      (Inr \<lparr>account = demo_checksum, chain = (1, False), web3Provider = demo_handle\<rparr>,
       snd (connect demo_config ?w None ?s))"
    by (simp add: prod_eq_iff)
  have en: "shim_enabled demo_config"
    by (simp add: shim_enabled_def demo_config_def)
  have chk: "checkSupport ?w (supportChecks ?s) None = Inr LedgerConnect"
    by (simp add: demo_world_def)
  have chk0: "checkSupport ?w 0 None = Inr LedgerConnect"
    by (simp add: demo_world_def)
  have st: "localStorage ?s = Some Map.empty"
    by (simp add: constructed_def)
  from connect_shim_flag [OF run] chk en st
  have "localStorage (snd (connect demo_config ?w None ?s)) =
          Some [shimDisconnectKey \<mapsto> ''true'']"
    by auto
  with en chk0 res show ?thesis
    by simp
qed

text \<open>
  C1 as the spec words it fails both ways: with the shim enabled, a successful
  \<open>connect\<close> over the relay-mediated transport leaves the flag absent, and a successful
  \<open>connect\<close> over the direct bridge writes it.
\<close>

theorem connect_shim_flag_counterexample:
  "shim_enabled demo_config \<and>
   checkSupport (demo_world WalletConnect) 0 None = Inr WalletConnect \<and>
   fst (connect demo_config (demo_world WalletConnect) None (constructed (Some Map.empty))) =
     Inr \<lparr>account = demo_checksum, chain = (1, False), web3Provider = demo_handle\<rparr> \<and>
   \<not> shim_flag_present
       (snd (connect demo_config (demo_world WalletConnect) None (constructed (Some Map.empty)))) \<and>
   checkSupport (demo_world LedgerConnect) 0 None = Inr LedgerConnect \<and>
   fst (connect demo_config (demo_world LedgerConnect) None (constructed (Some Map.empty))) =
     Inr \<lparr>account = demo_checksum, chain = (1, False), web3Provider = demo_handle\<rparr> \<and>
   \<not> shim_flag_present (constructed (Some Map.empty)) \<and>
   shim_flag_present
     (snd (connect demo_config (demo_world LedgerConnect) None (constructed (Some Map.empty))))"
  by (simp add: demo_defs op_defs Let_def)

subsection \<open>The shim flag after \<open>disconnect\<close>\<close>

text \<open>
  C2 (as amended). With the shim-disconnect option enabled, \<open>disconnect\<close> leaves the
  Disconnect Shim Flag absent from storage in two cases: when it returns normally and the
  transport kind recorded for the session is the direct-bridge kind (\<open>LedgerConnect\<close>),
  where it removes the flag itself; and when the recorded kind is the relay-mediated kind
  (\<open>WalletConnect\<close>), the handle is acquired, and the handle, asked to disconnect, emits
  its \<^verbatim>\<open>disconnect\<close> event while a handler of the connector is still registered, where
  \<^verbatim>\<open>onDisconnect\<close> removes it. In every other case (the relay-mediated handle stays
  silent or carries no handler of the connector, no kind is recorded, the handle cannot be
  acquired, the option is off) \<open>disconnect\<close> leaves storage as it was.
\<close>

theorem disconnect_shim_flag:
  assumes "disconnect c w s = (r, s')"
  shows "(r = Inr () \<and> shim_enabled c \<and> providerImplementation s = Some LedgerConnect \<longrightarrow>
            \<not> shim_flag_present s') \<and>
         (shim_enabled c \<and> providerImplementation s = Some WalletConnect \<and>
          (\<exists>p s1. getProvider w s = (Inr p, s1)) \<and>
          snd (provider_disconnect w (disconnects s)) \<and>
          DisconnectEvent \<in> set (listeners s) \<longrightarrow>
            \<not> shim_flag_present s') \<and>
         (\<not> (r = Inr () \<and> shim_enabled c \<and> providerImplementation s = Some LedgerConnect) \<and>
          \<not> (shim_enabled c \<and> providerImplementation s = Some WalletConnect \<and>
             (\<exists>p s1. getProvider w s = (Inr p, s1)) \<and>
             snd (provider_disconnect w (disconnects s)) \<and>
             DisconnectEvent \<in> set (listeners s)) \<longrightarrow>
            localStorage s' = localStorage s)"
proof (cases "getProvider w s")
  case (Pair g s1)
  note fr = getProvider_frame [OF Pair]
  show ?thesis
  proof (cases g)
    case (Inl e)
    with Pair assms show ?thesis
      using fr by (auto simp: disconnect_def)
  next
    case (Inr p)
    show ?thesis
    proof (cases "providerImplementation s = Some WalletConnect")
      case False
      with Pair Inr assms fr show ?thesis
        by (auto simp: disconnect_def Let_def shim_flag_present_def removeListeners_frame
                 split: if_split_asm option.splits)
    next
      case True
      obtain res emits where pd: "provider_disconnect w (disconnects s) = (res, emits)"
        by (cases "provider_disconnect w (disconnects s)")
      let ?t = "s1\<lparr>disconnects := Suc (disconnects s1)\<rparr>"
      let ?s2 = "if emits then provider_emits_disconnect c ?t else ?t"
      have kind2: "providerImplementation ?s2 = Some WalletConnect"
        using True fr by (simp add: provider_emits_disconnect_frame)
      have st2: "localStorage ?s2 =
          (if emits \<and> DisconnectEvent \<in> set (listeners s) \<and> shim_enabled c
           then map_option (\<lambda>st. st(shimDisconnectKey := None)) (localStorage s)
           else localStorage s)"
        using fr by (simp add: provider_emits_disconnect_storage)
      have out: "localStorage s' = localStorage ?s2"
        using assms Pair Inr True fr pd kind2
        by (auto simp: disconnect_def Let_def removeListeners_frame
                 split: sum.splits if_split_asm)
      have "\<not> shim_flag_present s'"
        if "shim_enabled c" "emits" "DisconnectEvent \<in> set (listeners s)"
        using that out st2 by (cases "localStorage s") (simp_all add: shim_flag_present_def)
      moreover have "localStorage s' = localStorage s"
        if "\<not> (shim_enabled c \<and> emits \<and> DisconnectEvent \<in> set (listeners s))"
        using that out st2 by auto
      ultimately show ?thesis
        using True Pair Inr pd by auto
    qed
  qed
qed

text \<open>
  The theorem after a session over the direct bridge, and after a session over a
  relay-mediated handle that emits its \<^verbatim>\<open>disconnect\<close> event, with the flag in storage
  from before.
\<close>

theorem disconnect_shim_flag_witness:
  "shim_enabled demo_config \<and>
   shim_flag_present
     (snd (connect demo_config (demo_world LedgerConnect) None (constructed (Some Map.empty)))) \<and>
   fst (disconnect demo_config (demo_world LedgerConnect)
     (snd (connect demo_config (demo_world LedgerConnect) None (constructed (Some Map.empty))))) =
     Inr () \<and>
   \<not> shim_flag_present
     (snd (disconnect demo_config (demo_world LedgerConnect)
       (snd (connect demo_config (demo_world LedgerConnect) None
          (constructed (Some Map.empty)))))) \<and>
   shim_flag_present
     (snd (connect demo_config (demo_world WalletConnect) None
        (constructed (Some [shimDisconnectKey \<mapsto> ''true''])))) \<and>
   \<not> shim_flag_present
     (snd (disconnect demo_config (demo_world WalletConnect)
       (snd (connect demo_config (demo_world WalletConnect) None
          (constructed (Some [shimDisconnectKey \<mapsto> ''true'']))))))"
proof -
  let ?w = "demo_world LedgerConnect"
  let ?s = "snd (connect demo_config ?w None (constructed (Some Map.empty)))"
  let ?v = "demo_world WalletConnect"
  let ?t = "snd (connect demo_config ?v None (constructed (Some [shimDisconnectKey \<mapsto> ''true''])))"
  have en: "shim_enabled demo_config"
    by (simp add: shim_enabled_def demo_config_def)
  have pre: "shim_flag_present ?s \<and> providerImplementation ?s = Some LedgerConnect"
    by (simp add: demo_defs op_defs Let_def)
  have res: "fst (disconnect demo_config ?w ?s) = Inr ()"
    by (simp add: demo_defs op_defs Let_def)
  then have run: "disconnect demo_config ?w ?s = (Inr (), snd (disconnect demo_config ?w ?s))"
    by (simp add: prod_eq_iff)
  from disconnect_shim_flag [OF run] en pre
  have 1: "\<not> shim_flag_present (snd (disconnect demo_config ?w ?s))"
    by blast
  have pre': "shim_flag_present ?t \<and> providerImplementation ?t = Some WalletConnect \<and>
              DisconnectEvent \<in> set (listeners ?t) \<and>
              snd (provider_disconnect ?v (disconnects ?t))"
    by (simp add: demo_defs op_defs Let_def)
  have gp: "\<exists>p s1. getProvider ?v ?t = (Inr p, s1)"
    by (simp add: demo_defs op_defs Let_def)
  have run': "disconnect demo_config ?v ?t =
                (fst (disconnect demo_config ?v ?t), snd (disconnect demo_config ?v ?t))"
    by simp
  from disconnect_shim_flag [OF run'] en pre' gp
  have 2: "\<not> shim_flag_present (snd (disconnect demo_config ?v ?t))"
    by blast
  from en pre res 1 pre' 2 show ?thesis
    by blast
qed

text \<open>
  C2 as the spec words it fails, with the option enabled and \<open>disconnect\<close> returning
  normally: a flag in storage stays there through a session over a relay-mediated handle
  that disconnects without emitting, and it stays when \<open>disconnect\<close> runs on a new
  instance, for which no kind is recorded.
\<close>

theorem disconnect_shim_flag_counterexample:
  "shim_enabled demo_config \<and>
   fst (connect demo_config
          ((demo_world WalletConnect)\<lparr>provider_disconnect := \<lambda>_. (Inr (), False)\<rparr>) None
          (constructed (Some [shimDisconnectKey \<mapsto> ''true'']))) =
     Inr \<lparr>account = demo_checksum, chain = (1, False), web3Provider = demo_handle\<rparr> \<and>
   fst (disconnect demo_config
          ((demo_world WalletConnect)\<lparr>provider_disconnect := \<lambda>_. (Inr (), False)\<rparr>)
     (snd (connect demo_config
             ((demo_world WalletConnect)\<lparr>provider_disconnect := \<lambda>_. (Inr (), False)\<rparr>) None
        (constructed (Some [shimDisconnectKey \<mapsto> ''true'']))))) = Inr () \<and>
   shim_flag_present
     (snd (disconnect demo_config
             ((demo_world WalletConnect)\<lparr>provider_disconnect := \<lambda>_. (Inr (), False)\<rparr>)
       (snd (connect demo_config
               ((demo_world WalletConnect)\<lparr>provider_disconnect := \<lambda>_. (Inr (), False)\<rparr>) None
          (constructed (Some [shimDisconnectKey \<mapsto> ''true'']))))))  \<and>
   fst (disconnect demo_config (demo_world WalletConnect)
          (constructed (Some [shimDisconnectKey \<mapsto> ''true'']))) = Inr () \<and>
   shim_flag_present
     (snd (disconnect demo_config (demo_world WalletConnect)
             (constructed (Some [shimDisconnectKey \<mapsto> ''true'']))))"
  by (simp add: demo_defs op_defs Let_def)

subsection \<open>\<open>isAuthorized\<close>\<close>

lemma isAuthorized_total: "\<exists>b s'. isAuthorized c w s = (Inr b, s')"
  by (cases "isAuthorized_try c w s") (auto simp: isAuthorized_def split: sum.splits)

text \<open>
  C3. \<open>isAuthorized\<close> never rejects. If the shim-disconnect option is enabled and the
  Disconnect Shim Flag is present, it returns false and the state is the one before the
  call: no resolution, no request. Otherwise it acquires the handle and sends
  \<^verbatim>\<open>eth_accounts\<close>, and returns true iff the answer holds at least one account; an
  error of the request or of the acquisition of the handle yields false. The code tests
  the stored item and the first account for truthiness, so the statement is about storages
  whose item under the key is not the empty string, and about answers whose accounts are
  not empty strings.
\<close>

theorem isAuthorized_policy:
  assumes "\<forall>st. localStorage s = Some st \<longrightarrow> st shimDisconnectKey \<noteq> Some []"
  shows "(\<exists>b s'. isAuthorized c w s = (Inr b, s')) \<and>
         (shim_enabled c \<and> shim_flag_present s \<longrightarrow> isAuthorized c w s = (Inr False, s)) \<and>
         (\<not> (shim_enabled c \<and> shim_flag_present s) \<longrightarrow>
            (\<forall>p s1 accounts.
               getProvider w s = (Inr p, s1) \<and>
               eth_accounts w (length (requests s)) = Inr accounts \<and> [] \<notin> set accounts \<longrightarrow>
               isAuthorized c w s =
                 (Inr (accounts \<noteq> []), s1\<lparr>requests := requests s @ [''eth_accounts'']\<rparr>)) \<and>
            (\<forall>p s1 e.
               getProvider w s = (Inr p, s1) \<and>
               eth_accounts w (length (requests s)) = Inl e \<longrightarrow>
               isAuthorized c w s =
                 (Inr False, s1\<lparr>requests := requests s @ [''eth_accounts'']\<rparr>)) \<and>
            (\<forall>s1 e. getProvider w s = (Inl e, s1) \<longrightarrow> isAuthorized c w s = (Inr False, s1)))"
proof -
  have flag: "(case localStorage s of None \<Rightarrow> False
               | Some st \<Rightarrow> getItem_truthy st shimDisconnectKey) = shim_flag_present s"
    using assms by (auto simp: shim_flag_present_def getItem_truthy_def split: option.splits)
  have a: "shim_enabled c \<and> shim_flag_present s \<longrightarrow> isAuthorized c w s = (Inr False, s)"
    by (simp add: isAuthorized_def isAuthorized_try_def flag)
  have b: "isAuthorized c w s =
             (Inr (accounts \<noteq> []), s1\<lparr>requests := requests s @ [''eth_accounts'']\<rparr>)"
    if "\<not> (shim_enabled c \<and> shim_flag_present s)" "getProvider w s = (Inr p, s1)"
       "eth_accounts w (length (requests s)) = Inr accounts" "[] \<notin> set accounts"
    for p s1 accounts
    using that getProvider_frame [OF that(2)]
    by (auto simp: isAuthorized_def isAuthorized_try_def flag Let_def split: list.splits)
  have c: "isAuthorized c w s = (Inr False, s1\<lparr>requests := requests s @ [''eth_accounts'']\<rparr>)"
    if "\<not> (shim_enabled c \<and> shim_flag_present s)" "getProvider w s = (Inr p, s1)"
       "eth_accounts w (length (requests s)) = Inl e"
    for p s1 e
    using that getProvider_frame [OF that(2)]
    by (auto simp: isAuthorized_def isAuthorized_try_def flag Let_def)
  have d: "isAuthorized c w s = (Inr False, s1)"
    if "\<not> (shim_enabled c \<and> shim_flag_present s)" "getProvider w s = (Inl e, s1)"
    for s1 e
    using that by (auto simp: isAuthorized_def isAuthorized_try_def flag)
  from isAuthorized_total a b c d show ?thesis
    by blast
qed

text \<open>
  The theorem with the flag in storage, without it, and without it over a transport that
  rejects the request.
\<close>

theorem isAuthorized_policy_witness:
  "isAuthorized demo_config (demo_world LedgerConnect)
     (constructed (Some [shimDisconnectKey \<mapsto> ''true''])) =
     (Inr False, constructed (Some [shimDisconnectKey \<mapsto> ''true''])) \<and>
   isAuthorized demo_config (demo_world LedgerConnect) (constructed (Some Map.empty)) =
     (Inr True, (constructed (Some Map.empty))
        \<lparr>provider := Some demo_handle, requests := [''eth_accounts''], resolutions := 1\<rparr>) \<and>
   isAuthorized demo_config
     ((demo_world LedgerConnect)\<lparr>eth_accounts := \<lambda>_. Inl user_rejection\<rparr>)
     (constructed (Some Map.empty)) =
     (Inr False, (constructed (Some Map.empty))
        \<lparr>provider := Some demo_handle, requests := [''eth_accounts''], resolutions := 1\<rparr>)"
proof -
  let ?w = "demo_world LedgerConnect"
  let ?f = "constructed (Some [shimDisconnectKey \<mapsto> ''true''])"
  let ?n = "constructed (Some Map.empty)"
  let ?s1 = "?n\<lparr>resolutions := Suc 0, provider := Some demo_handle\<rparr>"
  have en: "shim_enabled demo_config"
    by (simp add: shim_enabled_def demo_config_def)
  have wf: "\<forall>st. localStorage ?f = Some st \<longrightarrow> st shimDisconnectKey \<noteq> Some []"
    by (simp add: constructed_def)
  have wn: "\<forall>st. localStorage ?n = Some st \<longrightarrow> st shimDisconnectKey \<noteq> Some []"
    by (simp add: constructed_def)
  have pf: "shim_flag_present ?f"
    by (simp add: shim_flag_present_def constructed_def)
  have pn: "\<not> shim_flag_present ?n"
    by (simp add: shim_flag_present_def constructed_def)
  have gp: "getProvider ?w ?n = (Inr demo_handle, ?s1)"
    by (simp add: getProvider_def demo_world_def constructed_def)
  have gp': "getProvider (?w\<lparr>eth_accounts := \<lambda>_. Inl user_rejection\<rparr>) ?n = (Inr demo_handle, ?s1)"
    by (simp add: getProvider_def demo_world_def constructed_def)
  have acc: "eth_accounts ?w (length (requests ?n)) = Inr [demo_address] \<and>
             [] \<notin> set [demo_address]"
    by (simp add: demo_world_def demo_address_def)
  have rej: "eth_accounts (?w\<lparr>eth_accounts := \<lambda>_. Inl user_rejection\<rparr>) (length (requests ?n)) =
               Inl user_rejection"
    by simp
  have 1: "isAuthorized demo_config ?w ?f = (Inr False, ?f)"
    using isAuthorized_policy [OF wf, of demo_config ?w] en pf by blast
  have 2: "isAuthorized demo_config ?w ?n =
             (Inr ([demo_address] \<noteq> []), ?s1\<lparr>requests := requests ?n @ [''eth_accounts'']\<rparr>)"
    using isAuthorized_policy [OF wn, of demo_config ?w] pn gp acc by blast
  have 3: "isAuthorized demo_config (?w\<lparr>eth_accounts := \<lambda>_. Inl user_rejection\<rparr>) ?n =
             (Inr False, ?s1\<lparr>requests := requests ?n @ [''eth_accounts'']\<rparr>)"
    using isAuthorized_policy [OF wn, of demo_config "?w\<lparr>eth_accounts := \<lambda>_. Inl user_rejection\<rparr>"]
      pn gp' rej by blast
  from 1 2 3 show ?thesis
    by (simp add: constructed_def)
qed

subsection \<open>Errors of \<open>connect\<close>\<close>

lemma connect_try_requestAccounts_throws:
  assumes "connectKit w = Inr ()"
    and "checkSupport w (supportChecks s) chainId = Inr impl"
    and "getProvider w (s\<lparr>supportChecks := Suc (supportChecks s),
                          providerImplementation := Some impl\<rparr>) = (Inr p, sa)"
    and "eth_requestAccounts w (length (requests s)) = Inl e"
  shows "fst (connect_try c w chainId s) = Inl e"
proof -
  let ?s4 = "emit (Message ''connecting'')
               (if has_on p
                then sa\<lparr>listeners := listeners sa @
                          [AccountsChanged, ChainChanged, DisconnectEvent]\<rparr>
                else sa)"
  have p4: "provider ?s4 = Some p" and r4: "requests ?s4 = requests s"
    using getProvider_Inr [OF assms(3)] getProvider_frame [OF assms(3)]
    by (simp_all add: emit_def)
  have "fst (getAccount w ?s4) = Inl e"
    using assms(4) by (simp add: getAccount_def getProvider_cached [OF p4] r4 Let_def)
  then obtain s5 where "getAccount w ?s4 = (Inl e, s5)"
    by (cases "getAccount w ?s4") auto
  with assms(1-3) show ?thesis
    by (simp add: connect_try_def Let_def split del: if_split)
qed

text \<open>
  Where an error of the \<^verbatim>\<open>try\<close> block comes from: the Connect Kit promise, the
  support check, the resolver, one of the two requests, \<^verbatim>\<open>getAddress\<close>, or the write
  to a storage that is not there.
\<close>

lemma getProvider_Inl:
  assumes "getProvider w s = (Inl e, s')"
  shows "connectKit w = Inl e \<or> kit_getProvider w (resolutions s) = Inl e"
  using assms by (auto simp: getProvider_def split: option.splits sum.splits)

lemma getAccount_Inl:
  assumes "getAccount w s = (Inl e, s')"
  shows "connectKit w = Inl e \<or> (\<exists>n. kit_getProvider w n = Inl e) \<or>
         (\<exists>n. eth_requestAccounts w n = Inl e) \<or> e = invalid_address \<or>
         (\<exists>a. getAddress w a = Inl e)"
proof (cases "getProvider w s")
  case (Pair g s1)
  show ?thesis
  proof (cases g)
    case (Inl e')
    with Pair assms have "getProvider w s = (Inl e, s1)"
      by (simp add: getAccount_def)
    from getProvider_Inl [OF this] show ?thesis
      by blast
  next
    case (Inr p)
    with Pair assms show ?thesis
      by (auto simp: getAccount_def Let_def split: sum.splits list.splits)
  qed
qed

lemma getChainId_Inl:
  assumes "getChainId w s = (Inl e, s')"
  shows "connectKit w = Inl e \<or> (\<exists>n. kit_getProvider w n = Inl e) \<or>
         (\<exists>n. eth_chainId w n = Inl e)"
proof (cases "getProvider w s")
  case (Pair g s1)
  show ?thesis
  proof (cases g)
    case (Inl e')
    with Pair assms have "getProvider w s = (Inl e, s1)"
      by (simp add: getChainId_def)
    from getProvider_Inl [OF this] show ?thesis
      by blast
  next
    case (Inr p)
    with Pair assms show ?thesis
      by (auto simp: getChainId_def Let_def split: sum.splits)
  qed
qed

lemma connect_try_Inl:
  assumes "connect_try c w chainId s = (Inl e, s')"
  shows "connectKit w = Inl e \<or> (\<exists>n. checkSupport w n chainId = Inl e) \<or>
         (\<exists>n. kit_getProvider w n = Inl e) \<or>
         (\<exists>n. eth_requestAccounts w n = Inl e) \<or> e = invalid_address \<or>
         (\<exists>a. getAddress w a = Inl e) \<or>
         (\<exists>n. eth_chainId w n = Inl e) \<or> e = ReferenceError"
  using assms unfolding connect_try_def Let_def
  by (auto split: sum.splits prod.splits option.splits if_split_asm
           dest!: getProvider_Inl getAccount_Inl getChainId_Inl)

text \<open>
  The \<^verbatim>\<open>catch\<close> clause on a thrown value \<open>e\<close> that has properties: with the code
  4001, \<open>connect\<close> rejects with a \<open>UserRejectedRequestError\<close> around \<open>e\<close>; with
  the code -32002 it rejects with a generic error, which is \<open>e\<close> itself when \<open>e\<close> is
  an \<^verbatim>\<open>Error\<close> and a new \<^verbatim>\<open>Error\<close> of its text otherwise, and never the
  user-rejection kind; every other such \<open>e\<close> is re-raised unchanged.
\<close>

lemma connect_rejection_classified:
  assumes "connect_try c w chainId s = (Inl e, s')" and "code e = Some k"
  shows "(k = NumCode 4001 \<longrightarrow>
            connect c w chainId s = (Inl (UserRejectedRequestError e), s')) \<and>
         (k = NumCode (- 32002) \<longrightarrow>
            (\<exists>g. connect c w chainId s = (Inl g, s') \<and>
                 g = (if instanceof_Error e then e else new_Error (String e)) \<and>
                 instanceof_Error g \<and> (\<forall>x. g \<noteq> UserRejectedRequestError x))) \<and>
         (k \<noteq> NumCode 4001 \<and> k \<noteq> NumCode (- 32002) \<longrightarrow>
            connect c w chainId s = (Inl e, s'))"
  using assms
  by (cases e) (auto simp: connect_def connect_catch_def new_Error_def)

lemma connect_rejection_examples:
  "fst (connect demo_config
          ((demo_world WalletConnect)\<lparr>eth_requestAccounts := \<lambda>_. Inl user_rejection\<rparr>)
          None (constructed (Some Map.empty))) =
     Inl (UserRejectedRequestError user_rejection) \<and>
   fst (connect demo_config
          ((demo_world WalletConnect)\<lparr>eth_requestAccounts := \<lambda>_. Inl resource_unavailable\<rparr>)
          None (constructed (Some Map.empty))) =
     Inl (new_Error ''[object Object]'') \<and>
   fst (connect demo_config
          ((demo_world WalletConnect)\<lparr>eth_requestAccounts := \<lambda>_. Inl resolver_failure\<rparr>)
          None (constructed (Some Map.empty))) =
     Inl resolver_failure"
proof -
  let ?s = "constructed (Some Map.empty)"
  have thrown: "fst (connect_try demo_config
                  ((demo_world WalletConnect)\<lparr>eth_requestAccounts := \<lambda>_. Inl e\<rparr>) None ?s) = Inl e"
    for e
    by (rule connect_try_requestAccounts_throws
          [where impl = WalletConnect and p = demo_handle and
             sa = "?s\<lparr>supportChecks := Suc 0, providerImplementation := Some WalletConnect,
                     resolutions := Suc 0, provider := Some demo_handle\<rparr>"])
       (simp_all add: demo_world_def constructed_def getProvider_def)
  have run: "connect_try demo_config
               ((demo_world WalletConnect)\<lparr>eth_requestAccounts := \<lambda>_. Inl e\<rparr>) None ?s =
             (Inl e, snd (connect_try demo_config
               ((demo_world WalletConnect)\<lparr>eth_requestAccounts := \<lambda>_. Inl e\<rparr>) None ?s))"
    for e
    using thrown [of e] by (simp add: prod_eq_iff)
  have 1: "fst (connect demo_config
          ((demo_world WalletConnect)\<lparr>eth_requestAccounts := \<lambda>_. Inl user_rejection\<rparr>)
          None ?s) = Inl (UserRejectedRequestError user_rejection)"
    using connect_rejection_classified [OF run [of user_rejection], of "NumCode 4001"]
    by (simp add: user_rejection_def)
  have 2: "fst (connect demo_config
          ((demo_world WalletConnect)\<lparr>eth_requestAccounts := \<lambda>_. Inl resource_unavailable\<rparr>)
          None ?s) = Inl (new_Error ''[object Object]'')"
    using connect_rejection_classified [OF run [of resource_unavailable], of "NumCode (- 32002)"]
    by (auto simp: resource_unavailable_def)
  have 3: "fst (connect demo_config
          ((demo_world WalletConnect)\<lparr>eth_requestAccounts := \<lambda>_. Inl resolver_failure\<rparr>)
          None ?s) = Inl resolver_failure"
    using connect_rejection_classified [OF run [of resolver_failure], of NoCode]
    by (simp add: resolver_failure_def)
  from 1 2 3 show ?thesis
    by simp
qed

text \<open>
  On \<^verbatim>\<open>undefined\<close> and \<^verbatim>\<open>null\<close> the clause throws before it classifies:
  \<open>connect\<close> rejects with a \<^verbatim>\<open>TypeError\<close>, not with the value thrown.
\<close>

lemma connect_rejection_nullish:
  assumes "connect_try c w chainId s = (Inl e, s')" and "code e = None"
  shows "connect c w chainId s = (Inl (TypeError e), s') \<and> TypeError e \<noteq> e"
  using assms
  by (cases e) (auto simp: connect_def connect_catch_def TypeError_def)

text \<open>
  C4 says: when a step of the \<open>connect\<close> sequence throws, a value with the code 4001
  makes \<open>connect\<close> reject with the user-rejection kind, one with the code -32002 with a
  generic error, and any other thrown value is re-raised unchanged. The code does not do
  the last for every value. When the Connect Kit fails to load and its promise, awaited as
  the first step of the \<^verbatim>\<open>try\<close> block, rejects with \<^verbatim>\<open>undefined\<close>, the thrown
  value has neither code, and \<open>connect\<close> rejects with a \<^verbatim>\<open>TypeError\<close> instead of
  \<^verbatim>\<open>undefined\<close>.
\<close>

theorem connect_rethrows_undefined_as_TypeError:
  "connect_try demo_config ((demo_world WalletConnect)\<lparr>connectKit := Inl Undefined\<rparr>) None
     (constructed None) = (Inl Undefined, constructed None) \<and>
   code Undefined \<noteq> Some (NumCode 4001) \<and>
   code Undefined \<noteq> Some (NumCode (- 32002)) \<and>
   connect demo_config ((demo_world WalletConnect)\<lparr>connectKit := Inl Undefined\<rparr>) None
     (constructed None) = (Inl (TypeError Undefined), constructed None) \<and>
   TypeError Undefined \<noteq> Undefined"
  by (simp add: connect_def connect_try_def connect_catch_def TypeError_def demo_world_def)

subsection \<open>The handler of \<^verbatim>\<open>accountsChanged\<close>\<close>

text \<open>
  C5. For every \<^verbatim>\<open>accountsChanged\<close> event forwarded from the transport: on the empty
  list the connector emits the disconnect signal; on a list whose first address has the
  checksum form \<open>acc\<close> (\<^verbatim>\<open>getAddress\<close> returns it) the connector emits a change
  signal whose account is \<open>acc\<close>. Nothing else changes.
\<close>

theorem onAccountsChanged_signal:
  "onAccountsChanged w [] s = (Inr (), s\<lparr>emitted := emitted s @ [Disconnect]\<rparr>) \<and>
   (getAddress w a = Inr acc \<longrightarrow>
      onAccountsChanged w (a # rest) s =
        (Inr (), s\<lparr>emitted := emitted s @ [Change (Some acc) None]\<rparr>))"
  by (simp add: onAccountsChanged_def emit_def)

text \<open>The theorem at a list of one address.\<close>

theorem onAccountsChanged_signal_witness:
  "getAddress (demo_world WalletConnect) demo_address = Inr demo_checksum \<and>
   onAccountsChanged (demo_world WalletConnect) [demo_address] (constructed None) =
     (Inr (), (constructed None)\<lparr>emitted := [Change (Some demo_checksum) None]\<rparr>)"
proof -
  have h: "getAddress (demo_world WalletConnect) demo_address = Inr demo_checksum"
    by (simp add: demo_world_def)
  with onAccountsChanged_signal
         [of "demo_world WalletConnect" "constructed None" demo_address demo_checksum "[]"]
  show ?thesis
    by (simp add: constructed_def)
qed

subsection \<open>The trace of a successful \<open>connect\<close>\<close>

text \<open>
  What a successful \<open>connect\<close> did: it sent \<^verbatim>\<open>eth_requestAccounts\<close> and then
  \<^verbatim>\<open>eth_chainId\<close>, as the next two requests of the transport, built its result from
  the two answers, and resolved the transport only if no handle was cached.
\<close>

lemma getProvider_Inr_cases:
  assumes "getProvider w s = (Inr p, s')"
  shows "(provider s = Some p \<and> s' = s) \<or>
         (provider s = None \<and> kit_getProvider w (resolutions s) = Inr p \<and>
          s' = s\<lparr>resolutions := Suc (resolutions s), provider := Some p\<rparr>)"
  using assms by (auto simp: getProvider_def split: option.splits sum.splits)

lemma getAccount_cached:
  assumes "provider s = Some p" and "getAccount w s = (Inr a, s')"
  shows "\<exists>x xs. eth_requestAccounts w (length (requests s)) = Inr (x # xs) \<and>
           getAddress w x = Inr a \<and>
           s' = s\<lparr>requests := requests s @ [''eth_requestAccounts'']\<rparr>"
  using getAccount_Inr [OF assms(2)] getProvider_cached [OF assms(1), of w]
  by auto

lemma getChainId_cached:
  assumes "provider s = Some p" and "getChainId w s = (Inr i, s')"
  shows "\<exists>raw. eth_chainId w (length (requests s)) = Inr raw \<and>
           i = normalizeChainId w raw \<and>
           s' = s\<lparr>requests := requests s @ [''eth_chainId'']\<rparr>"
  using getChainId_Inr [OF assms(2)] getProvider_cached [OF assms(1), of w]
  by auto

lemma connect_Inr_trace:
  assumes "connect c w chainId s = (Inr r, s')"
  shows "\<exists>x xs raw.
           eth_requestAccounts w (length (requests s)) = Inr (x # xs) \<and>
           getAddress w x = Inr (account r) \<and>
           eth_chainId w (Suc (length (requests s))) = Inr raw \<and>
           chain r = (normalizeChainId w raw, isChainUnsupported c (normalizeChainId w raw)) \<and>
           requests s' = requests s @ [''eth_requestAccounts'', ''eth_chainId''] \<and>
           provider s' = Some (web3Provider r) \<and>
           (case provider s of
              Some p \<Rightarrow> web3Provider r = p \<and> resolutions s' = resolutions s
            | None \<Rightarrow> kit_getProvider w (resolutions s) = Inr (web3Provider r) \<and>
                resolutions s' = Suc (resolutions s))"
proof -
  from assms have "connect_try c w chainId s = (Inr r, s')"
    by (simp add: connect_Inr)
  from connect_try_Inr [OF this] obtain impl p s2 s5 s6 acc i where
    gp: "getProvider w (s\<lparr>supportChecks := Suc (supportChecks s),
                          providerImplementation := Some impl\<rparr>) = (Inr p, s2)" and
    ga: "getAccount w (emit (Message ''connecting'')
              (if has_on p
               then s2\<lparr>listeners := listeners s2 @
                         [AccountsChanged, ChainChanged, DisconnectEvent]\<rparr>
               else s2)) = (Inr acc, s5)" and
    gc: "getChainId w s5 = (Inr i, s6)" and
    r: "r = \<lparr>account = acc, chain = (i, isChainUnsupported c i), web3Provider = p\<rparr>" and
    fin: "if shim_enabled c \<and> providerImplementation s6 = Some LedgerConnect
          then \<exists>st. localStorage s6 = Some st \<and>
                 s' = s6\<lparr>localStorage := Some (st(shimDisconnectKey \<mapsto> ''true''))\<rparr>
          else s' = s6"
    by blast
  let ?s4 = "emit (Message ''connecting'')
              (if has_on p
               then s2\<lparr>listeners := listeners s2 @
                         [AccountsChanged, ChainChanged, DisconnectEvent]\<rparr>
               else s2)"
  have p2: "provider s2 = Some p" and q2: "requests s2 = requests s"
    using getProvider_Inr [OF gp] getProvider_frame [OF gp] by simp_all
  have res: "case provider s of
               Some q \<Rightarrow> p = q \<and> resolutions s2 = resolutions s
             | None \<Rightarrow> kit_getProvider w (resolutions s) = Inr p \<and>
                 resolutions s2 = Suc (resolutions s)"
    using getProvider_Inr_cases [OF gp] by auto
  have p4: "provider ?s4 = Some p" and q4: "requests ?s4 = requests s"
    and n4: "resolutions ?s4 = resolutions s2"
    using p2 q2 by (simp_all add: emit_def)
  from getAccount_cached [OF p4 ga] obtain x xs where
    acc: "eth_requestAccounts w (length (requests s)) = Inr (x # xs)" "getAddress w x = Inr acc"
    and s5: "s5 = ?s4\<lparr>requests := requests s @ [''eth_requestAccounts'']\<rparr>"
    by (auto simp: q4)
  have p5: "provider s5 = Some p" and q5: "requests s5 = requests s @ [''eth_requestAccounts'']"
    and n5: "resolutions s5 = resolutions s2"
    using p4 n4 by (simp_all add: s5)
  from getChainId_cached [OF p5 gc] obtain raw where
    raw: "eth_chainId w (Suc (length (requests s))) = Inr raw" "i = normalizeChainId w raw"
    and s6: "s6 = s5\<lparr>requests := requests s @ [''eth_requestAccounts'', ''eth_chainId'']\<rparr>"
    by (auto simp: q5)
  have p6: "provider s6 = Some p"
    and q6: "requests s6 = requests s @ [''eth_requestAccounts'', ''eth_chainId'']"
    and n6: "resolutions s6 = resolutions s2"
    using p5 n5 by (simp_all add: s6)
  have fin': "provider s' = Some p \<and> requests s' = requests s6 \<and> resolutions s' = resolutions s2"
    using fin p6 n6 by (auto split: if_split_asm)
  show ?thesis
    using acc raw r fin' q6 res by (auto split: option.splits)
qed

lemma disconnect_cached_frame:
  assumes "provider s = Some p" and "disconnect c w s = (d, s')"
  shows "provider s' = Some p \<and> resolutions s' = resolutions s \<and> requests s' = requests s \<and>
         supportChecks s' = supportChecks s"
proof -
  obtain res emits where pd: "provider_disconnect w (disconnects s) = (res, emits)"
    by (cases "provider_disconnect w (disconnects s)")
  from assms pd show ?thesis
    by (auto simp: disconnect_def getProvider_cached [OF assms(1)] Let_def
                   provider_emits_disconnect_frame removeListeners_frame
             split: if_split_asm sum.splits option.splits)
qed

lemma getAccount_cached_frame:
  assumes "provider s = Some p" and "getAccount w s = (r, s')"
  shows "provider s' = Some p \<and> resolutions s' = resolutions s"
  using assms
  by (auto simp: getAccount_def getProvider_cached [OF assms(1)] Let_def
           split: sum.splits list.splits)

lemma getChainId_cached_frame:
  assumes "provider s = Some p" and "getChainId w s = (r, s')"
  shows "provider s' = Some p \<and> resolutions s' = resolutions s"
  using assms
  by (auto simp: getChainId_def getProvider_cached [OF assms(1)] Let_def
           split: sum.splits)

lemma connect_try_cached_frame:
  assumes "provider s = Some p" and "connect_try c w chainId s = (x, s')"
  shows "provider s' = Some p \<and> resolutions s' = resolutions s"
proof (cases "connectKit w")
  case (Inl e)
  with assms show ?thesis
    by (simp add: connect_try_def)
next
  case kit: (Inr u)
  show ?thesis
  proof (cases "checkSupport w (supportChecks s) chainId")
    case (Inl e)
    with kit assms show ?thesis
      by (auto simp: connect_try_def)
  next
    case (Inr impl)
    let ?s1 = "s\<lparr>supportChecks := Suc (supportChecks s), providerImplementation := Some impl\<rparr>"
    let ?s4 = "emit (Message ''connecting'')
                 (if has_on p
                  then ?s1\<lparr>listeners := listeners ?s1 @
                             [AccountsChanged, ChainChanged, DisconnectEvent]\<rparr>
                  else ?s1)"
    have p1: "provider ?s1 = Some p"
      using assms(1) by simp
    have p4: "provider ?s4 = Some p" and n4: "resolutions ?s4 = resolutions s"
      using assms(1) by (simp_all add: emit_def)
    obtain a s5 where ga: "getAccount w ?s4 = (a, s5)"
      by (cases "getAccount w ?s4")
    note f5 = getAccount_cached_frame [OF p4 ga]
    obtain b s6 where gc: "getChainId w s5 = (b, s6)"
      by (cases "getChainId w s5")
    have f6: "provider s6 = Some p \<and> resolutions s6 = resolutions s"
      using getChainId_cached_frame [OF _ gc, of p] f5 n4 by simp
    from assms(2) kit Inr ga gc f5 f6 n4 show ?thesis
      by (auto simp: connect_try_def getProvider_cached [OF p1] Let_def
               split: sum.splits option.splits if_split_asm)
  qed
qed

lemma connect_cached_frame:
  assumes "provider s = Some p" and "connect c w chainId s = (x, s')"
  shows "provider s' = Some p \<and> resolutions s' = resolutions s"
proof -
  obtain y where "connect_try c w chainId s = (y, s')"
    using assms(2) by (cases "connect_try c w chainId s") (auto simp: connect_def split: sum.splits)
  from connect_try_cached_frame [OF assms(1) this] show ?thesis .
qed

lemma connect_supportChecks:
  assumes "connect c w chainId s = (Inr r, s')"
  shows "supportChecks s' = Suc (supportChecks s)"
proof -
  from assms have "connect_try c w chainId s = (Inr r, s')"
    by (simp add: connect_Inr)
  from connect_try_Inr [OF this] obtain impl p s2 s5 s6 acc i where
    gp: "getProvider w (s\<lparr>supportChecks := Suc (supportChecks s),
                          providerImplementation := Some impl\<rparr>) = (Inr p, s2)" and
    ga: "getAccount w (emit (Message ''connecting'')
              (if has_on p
               then s2\<lparr>listeners := listeners s2 @
                         [AccountsChanged, ChainChanged, DisconnectEvent]\<rparr>
               else s2)) = (Inr acc, s5)" and
    gc: "getChainId w s5 = (Inr i, s6)" and
    fin: "if shim_enabled c \<and> providerImplementation s6 = Some LedgerConnect
          then \<exists>st. localStorage s6 = Some st \<and>
                 s' = s6\<lparr>localStorage := Some (st(shimDisconnectKey \<mapsto> ''true''))\<rparr>
          else s' = s6"
    by blast
  have "supportChecks s6 = Suc (supportChecks s)"
    using getProvider_frame [OF gp] getAccount_frame [OF ga] getChainId_frame [OF gc]
    by (simp add: emit_def)
  with fin show ?thesis
    by (auto split: if_split_asm)
qed

lemma isChainUnsupported_iff: "isChainUnsupported c i \<longleftrightarrow> i \<notin> chain_id ` set (chains c)"
  by (auto simp: isChainUnsupported_def list_ex_iff)

subsection \<open>Unsupported chains\<close>

text \<open>
  C6. For every chain id, \<^verbatim>\<open>unsupported\<close> is true iff the id is not among the ids of
  the configured chains: so it is in the result of a successful \<open>connect\<close>, whose chain
  id is the normalized answer to \<^verbatim>\<open>eth_chainId\<close>, and so it is in the change signal
  that every \<^verbatim>\<open>chainChanged\<close> event causes, which carries the normalized id and the
  recomputed \<^verbatim>\<open>unsupported\<close>.
\<close>

theorem unsupported_iff_not_configured:
  "isChainUnsupported c i = (i \<notin> chain_id ` set (chains c)) \<and>
   (connect c w chainId s = (Inr r, s') \<longrightarrow>
      snd (chain r) = (fst (chain r) \<notin> chain_id ` set (chains c)) \<and>
      (\<exists>raw. eth_chainId w (Suc (length (requests s))) = Inr raw \<and>
             fst (chain r) = normalizeChainId w raw)) \<and>
   onChainChanged c w raw s =
     (Inr (), s\<lparr>emitted := emitted s @
        [Change None (Some (normalizeChainId w raw,
                            normalizeChainId w raw \<notin> chain_id ` set (chains c)))]\<rparr>)"
proof -
  have "snd (chain r) = (fst (chain r) \<notin> chain_id ` set (chains c)) \<and>
        (\<exists>raw. eth_chainId w (Suc (length (requests s))) = Inr raw \<and>
               fst (chain r) = normalizeChainId w raw)"
    if "connect c w chainId s = (Inr r, s')"
    using connect_Inr_trace [OF that] by (auto simp: isChainUnsupported_iff)
  then show ?thesis
    by (simp add: isChainUnsupported_iff onChainChanged_def emit_def Let_def)
qed

text \<open>The theorem at chain 1, which is configured, and at chain 5, which is not.\<close>

theorem unsupported_iff_not_configured_witness:
  "fst (connect demo_config (demo_world WalletConnect) None (constructed None)) =
     Inr \<lparr>account = demo_checksum, chain = (1, False), web3Provider = demo_handle\<rparr> \<and>
   1 \<in> chain_id ` set (chains demo_config) \<and>
   5 \<notin> chain_id ` set (chains demo_config) \<and>
   isChainUnsupported demo_config 5 \<and>
   onChainChanged demo_config (demo_world WalletConnect) (Num 5) (constructed None) =
     (Inr (), (constructed None)\<lparr>emitted := [Change None (Some (5, True))]\<rparr>)"
proof -
  let ?w = "demo_world WalletConnect" and ?s = "constructed None"
  let ?r = "\<lparr>account = demo_checksum, chain = (1, False), web3Provider = demo_handle\<rparr>"
  have res: "fst (connect demo_config ?w None ?s) = Inr ?r"
    by (simp add: demo_defs op_defs Let_def)
  then have run: "connect demo_config ?w None ?s = (Inr ?r, snd (connect demo_config ?w None ?s))"
    by (simp add: prod_eq_iff)
  have norm: "normalizeChainId ?w (Num 5) = 5"
    by (simp add: demo_world_def)
  have five: "5 \<notin> chain_id ` set (chains demo_config)"
    by (simp add: demo_config_def)
  note inst = unsupported_iff_not_configured
    [of demo_config 5 ?w None ?s ?r "snd (connect demo_config ?w None ?s)" "Num 5"]
  from inst run have one: "1 \<in> chain_id ` set (chains demo_config)"
    by simp
  from inst five have uns: "isChainUnsupported demo_config 5"
    by blast
  from inst norm five have
    "onChainChanged demo_config ?w (Num 5) ?s =
       (Inr (), ?s\<lparr>emitted := emitted ?s @ [Change None (Some (5, True))]\<rparr>)"
    by simp
  then have "onChainChanged demo_config ?w (Num 5) ?s =
       (Inr (), ?s\<lparr>emitted := [Change None (Some (5, True))]\<rparr>)"
    by (simp add: constructed_def)
  with res one five uns show ?thesis
    by blast
qed

subsection \<open>The account of a successful \<open>connect\<close>\<close>

text \<open>
  C9. \<open>connect\<close> either rejects or returns a result whose account is the checksum form
  (the value of \<^verbatim>\<open>getAddress\<close>) of the first address in the answer to the
  \<^verbatim>\<open>eth_requestAccounts\<close> request it sent: no successful return has an absent or an
  unformatted account.
\<close>

theorem connect_account_checksummed:
  "(\<exists>e s'. connect c w chainId s = (Inl e, s')) \<or>
   (\<exists>r s' x xs. connect c w chainId s = (Inr r, s') \<and>
      eth_requestAccounts w (length (requests s)) = Inr (x # xs) \<and>
      getAddress w x = Inr (account r))"
proof (cases "connect c w chainId s")
  case (Pair res s')
  show ?thesis
  proof (cases res)
    case (Inl e)
    with Pair show ?thesis by blast
  next
    case (Inr r)
    with Pair have "connect c w chainId s = (Inr r, s')"
      by simp
    from this connect_Inr_trace [OF this] show ?thesis
      by blast
  qed
qed

subsection \<open>One resolution for the instance\<close>

text \<open>
  C7. On an instance without a cached handle, let \<open>connect\<close> succeed, then
  \<open>disconnect\<close> run, then \<open>connect\<close> run again. The transport was resolved exactly
  once, by the first \<open>connect\<close>, whatever the outcomes of the two later calls, and every
  later \<open>getProvider\<close> returns the cached handle without a call to the Connect Kit. When
  the second \<open>connect\<close> succeeds it returns the same handle, each \<open>connect\<close> has sent
  its own \<^verbatim>\<open>eth_requestAccounts\<close> and \<^verbatim>\<open>eth_chainId\<close> requests, and the second
  result comes from the answers to the second pair. (The support check of the Connect Kit,
  which hands out no handle, runs in each \<open>connect\<close>.)
\<close>

theorem reconnect_resolves_once:
  assumes "provider s0 = None"
    and "connect c w chainId1 s0 = (Inr r1, s1)"
    and "disconnect c w s1 = (d, s2)"
    and "connect c w chainId2 s2 = (x, s3)"
  shows "kit_getProvider w (resolutions s0) = Inr (web3Provider r1) \<and>
         resolutions s1 = Suc (resolutions s0) \<and> resolutions s2 = Suc (resolutions s0) \<and>
         resolutions s3 = Suc (resolutions s0) \<and>
         getProvider w s3 = (Inr (web3Provider r1), s3) \<and>
         requests s1 = requests s0 @ [''eth_requestAccounts'', ''eth_chainId''] \<and>
         requests s2 = requests s1 \<and>
         supportChecks s1 = Suc (supportChecks s0) \<and> supportChecks s2 = supportChecks s1 \<and>
         (\<forall>r2. x = Inr r2 \<longrightarrow>
            web3Provider r2 = web3Provider r1 \<and>
            supportChecks s3 = Suc (Suc (supportChecks s0)) \<and>
            requests s3 = requests s0 @ [''eth_requestAccounts'', ''eth_chainId'',
                                         ''eth_requestAccounts'', ''eth_chainId''] \<and>
            (\<exists>a as. eth_requestAccounts w (length (requests s0) + 2) = Inr (a # as) \<and>
                    getAddress w a = Inr (account r2)) \<and>
            (\<exists>raw. eth_chainId w (length (requests s0) + 3) = Inr raw \<and>
                   fst (chain r2) = normalizeChainId w raw))"
proof -
  from connect_Inr_trace [OF assms(2)] assms(1) have
    p1: "provider s1 = Some (web3Provider r1)" and
    n1: "resolutions s1 = Suc (resolutions s0)" and
    r1: "kit_getProvider w (resolutions s0) = Inr (web3Provider r1)" and
    q1: "requests s1 = requests s0 @ [''eth_requestAccounts'', ''eth_chainId'']"
    by auto
  from disconnect_cached_frame [OF p1 assms(3)] have
    p2: "provider s2 = Some (web3Provider r1)" and
    n2: "resolutions s2 = resolutions s1" and
    q2: "requests s2 = requests s1" and
    k2: "supportChecks s2 = supportChecks s1"
    by simp_all
  note k1 = connect_supportChecks [OF assms(2)]
  from connect_cached_frame [OF p2 assms(4)] have
    p3: "provider s3 = Some (web3Provider r1)" and
    n3: "resolutions s3 = resolutions s2"
    by simp_all
  have len: "length (requests s2) = length (requests s0) + 2"
    by (simp add: q2 q1)
  have again: "web3Provider r2 = web3Provider r1 \<and>
      supportChecks s3 = Suc (Suc (supportChecks s0)) \<and>
      requests s3 = requests s0 @ [''eth_requestAccounts'', ''eth_chainId'',
                                   ''eth_requestAccounts'', ''eth_chainId''] \<and>
      (\<exists>a as. eth_requestAccounts w (length (requests s0) + 2) = Inr (a # as) \<and>
              getAddress w a = Inr (account r2)) \<and>
      (\<exists>raw. eth_chainId w (length (requests s0) + 3) = Inr raw \<and>
             fst (chain r2) = normalizeChainId w raw)"
    if "x = Inr r2" for r2
  proof -
    from that assms(4) have "connect c w chainId2 s2 = (Inr r2, s3)"
      by simp
    from connect_Inr_trace [OF this] p2 obtain a as raw where
      a: "eth_requestAccounts w (length (requests s2)) = Inr (a # as)"
         "getAddress w a = Inr (account r2)" and
      b: "eth_chainId w (Suc (length (requests s2))) = Inr raw"
         "chain r2 = (normalizeChainId w raw, isChainUnsupported c (normalizeChainId w raw))" and
      q3: "requests s3 = requests s2 @ [''eth_requestAccounts'', ''eth_chainId'']" and
      h: "web3Provider r2 = web3Provider r1"
      by auto
    have "\<exists>a as. eth_requestAccounts w (length (requests s0) + 2) = Inr (a # as) \<and>
        getAddress w a = Inr (account r2)"
      using a len by auto
    moreover have "\<exists>raw. eth_chainId w (length (requests s0) + 3) = Inr raw \<and>
        fst (chain r2) = normalizeChainId w raw"
      using b len by (auto simp: numeral_3_eq_3)
    ultimately show ?thesis
      using h q1 q2 q3 k1 k2 connect_supportChecks [OF \<open>connect c w chainId2 s2 = (Inr r2, s3)\<close>]
      by simp
  qed
  have "getProvider w s3 = (Inr (web3Provider r1), s3)"
    using getProvider_cached [OF p3, of w] by simp
  with again n1 n2 n3 r1 q1 q2 k1 k2 show ?thesis
    by simp
qed

text \<open>The theorem on a new connector: one resolution, four requests.\<close>

theorem reconnect_resolves_once_witness:
  "resolutions (constructed (Some Map.empty)) = 0 \<and>
   resolutions
     (snd (connect demo_config (demo_world WalletConnect) None
        (snd (disconnect demo_config (demo_world WalletConnect)
           (snd (connect demo_config (demo_world WalletConnect) None
              (constructed (Some Map.empty)))))))) = 1 \<and>
   requests
     (snd (connect demo_config (demo_world WalletConnect) None
        (snd (disconnect demo_config (demo_world WalletConnect)
           (snd (connect demo_config (demo_world WalletConnect) None
              (constructed (Some Map.empty)))))))) =
     [''eth_requestAccounts'', ''eth_chainId'', ''eth_requestAccounts'', ''eth_chainId'']"
proof -
  let ?w = "demo_world WalletConnect" and ?s0 = "constructed (Some Map.empty)"
  let ?r = "\<lparr>account = demo_checksum, chain = (1, False), web3Provider = demo_handle\<rparr>"
  let ?s1 = "snd (connect demo_config ?w None ?s0)"
  let ?s2 = "snd (disconnect demo_config ?w ?s1)"
  let ?s3 = "snd (connect demo_config ?w None ?s2)"
  have fresh: "provider ?s0 = None" and zero: "resolutions ?s0 = 0" and none: "requests ?s0 = []"
    by (simp_all add: constructed_def)
  have "fst (connect demo_config ?w None ?s0) = Inr ?r"
    by (simp add: demo_defs op_defs Let_def)
  then have c1: "connect demo_config ?w None ?s0 = (Inr ?r, ?s1)"
    by (simp add: prod_eq_iff)
  have d: "disconnect demo_config ?w ?s1 = (fst (disconnect demo_config ?w ?s1), ?s2)"
    by simp
  have "fst (connect demo_config ?w None ?s2) = Inr ?r"
    by (simp add: demo_defs op_defs Let_def)
  then have c2: "connect demo_config ?w None ?s2 = (Inr ?r, ?s3)"
    by (simp add: prod_eq_iff)
  from reconnect_resolves_once [OF fresh c1 d c2] zero none show ?thesis
    by simp
qed

subsection \<open>\<open>disconnect\<close> without a session\<close>

text \<open>
  C8 (as amended). \<open>disconnect\<close> called when no session exists (no successful
  \<open>connect\<close> has happened on the instance) is not a no-op: it runs the steps it runs
  with a session, on what earlier calls left in the instance. It never changes the
  recorded transport kind, the requests sent or the number of support checks, and it
  rejects only with the error of the acquisition of the handle (of the Connect Kit promise
  or of the resolver, when no handle is cached) or with the error of the handle's own
  disconnect (which it calls when a failed \<open>connect\<close> recorded the relay-mediated kind).
  When no kind is recorded (no \<open>connect\<close> got past its support check): with a handle
  cached it returns normally, and only removes the handlers of the connector from the
  handle, so that it leaves the whole state unchanged when none is registered; without a
  cached handle it resolves the transport, rejects with the state unchanged but for the
  resolution count if that fails, and otherwise returns normally with the resolved handle
  now cached. When a failed \<open>connect\<close> recorded the relay-mediated kind
  (\<open>WalletConnect\<close>), it calls the handle's own disconnect once the handle is acquired,
  and returns or rejects as that call does. When a failed \<open>connect\<close> recorded the
  direct-bridge kind (\<open>LedgerConnect\<close>), it does not call the handle's disconnect,
  returns normally once the handle is acquired, emits nothing, and with the shim option
  enabled leaves the Disconnect Shim Flag absent from storage, without it storage as it
  was.
\<close>

theorem disconnect_without_session:
  assumes "disconnect c w s = (r, s')"
  shows "providerImplementation s' = providerImplementation s \<and>
         requests s' = requests s \<and> supportChecks s' = supportChecks s \<and>
         (\<forall>x. r = Inl x \<longrightarrow>
            (provider s = None \<and>
             (connectKit w = Inl x \<or> kit_getProvider w (resolutions s) = Inl x)) \<or>
            (providerImplementation s = Some WalletConnect \<and>
             fst (provider_disconnect w (disconnects s)) = Inl x)) \<and>
         (providerImplementation s = None \<and> provider s = Some p \<longrightarrow>
            r = Inr () \<and> s' = removeListeners p s) \<and>
         (providerImplementation s = None \<and> provider s = Some p \<and> listeners s = [] \<longrightarrow>
            r = Inr () \<and> s' = s) \<and>
         (providerImplementation s = None \<and> provider s = None \<and> connectKit w = Inl e \<longrightarrow>
            r = Inl e \<and> s' = s) \<and>
         (providerImplementation s = None \<and> provider s = None \<and> connectKit w = Inr () \<and>
          kit_getProvider w (resolutions s) = Inl e \<longrightarrow>
            r = Inl e \<and> s' = s\<lparr>resolutions := Suc (resolutions s)\<rparr>) \<and>
         (providerImplementation s = None \<and> provider s = None \<and> connectKit w = Inr () \<and>
          kit_getProvider w (resolutions s) = Inr p \<longrightarrow>
            r = Inr () \<and>
            s' = removeListeners p (s\<lparr>resolutions := Suc (resolutions s), provider := Some p\<rparr>)) \<and>
         (providerImplementation s = Some WalletConnect \<and>
          (\<exists>q s1. getProvider w s = (Inr q, s1)) \<longrightarrow>
            r = fst (provider_disconnect w (disconnects s)) \<and>
            disconnects s' = Suc (disconnects s)) \<and>
         (providerImplementation s = Some LedgerConnect \<and>
          (\<exists>q s1. getProvider w s = (Inr q, s1)) \<longrightarrow>
            r = Inr () \<and> disconnects s' = disconnects s \<and> emitted s' = emitted s \<and>
            (shim_enabled c \<longrightarrow> \<not> shim_flag_present s') \<and>
            (\<not> shim_enabled c \<longrightarrow> localStorage s' = localStorage s))"
proof -
  obtain res emits where pd: "provider_disconnect w (disconnects s) = (res, emits)"
    by (cases "provider_disconnect w (disconnects s)")
  obtain g s1 where gp: "getProvider w s = (g, s1)"
    by (cases "getProvider w s")
  note fr = getProvider_frame [OF gp]
  have frame: "providerImplementation s' = providerImplementation s \<and>
      requests s' = requests s \<and> supportChecks s' = supportChecks s"
    using assms gp fr pd
    by (auto simp: disconnect_def Let_def provider_emits_disconnect_frame removeListeners_frame
             split: sum.splits if_split_asm option.splits)
  have rej: "(provider s = None \<and>
        (connectKit w = Inl x \<or> kit_getProvider w (resolutions s) = Inl x)) \<or>
       (providerImplementation s = Some WalletConnect \<and>
        fst (provider_disconnect w (disconnects s)) = Inl x)"
    if "r = Inl x" for x
  proof (cases g)
    case (Inl y)
    with assms gp that have "getProvider w s = (Inl x, s1)"
      by (simp add: disconnect_def)
    then show ?thesis
      by (auto simp: getProvider_def split: option.splits sum.splits)
  next
    case (Inr q)
    with assms gp that fr pd show ?thesis
      by (auto simp: disconnect_def Let_def split: sum.splits if_split_asm option.splits)
  qed
  have none: "(provider s = Some p \<longrightarrow> r = Inr () \<and> s' = removeListeners p s) \<and>
      (provider s = Some p \<and> listeners s = [] \<longrightarrow> r = Inr () \<and> s' = s) \<and>
      (provider s = None \<and> connectKit w = Inl e \<longrightarrow> r = Inl e \<and> s' = s) \<and>
      (provider s = None \<and> connectKit w = Inr () \<and>
       kit_getProvider w (resolutions s) = Inl e \<longrightarrow>
         r = Inl e \<and> s' = s\<lparr>resolutions := Suc (resolutions s)\<rparr>) \<and>
      (provider s = None \<and> connectKit w = Inr () \<and>
       kit_getProvider w (resolutions s) = Inr p \<longrightarrow>
         r = Inr () \<and>
         s' = removeListeners p (s\<lparr>resolutions := Suc (resolutions s), provider := Some p\<rparr>))"
    if "providerImplementation s = None"
    using assms that
    by (auto simp: disconnect_def getProvider_def Let_def removeListeners_frame
                   removeListeners_none)
  have wc: "r = fst (provider_disconnect w (disconnects s)) \<and>
      disconnects s' = Suc (disconnects s)"
    if "providerImplementation s = Some WalletConnect" "getProvider w s = (Inr q, t)" for q t
    using assms that pd getProvider_frame [OF that(2)]
    by (cases emits)
       (auto simp: disconnect_def Let_def provider_emits_disconnect_frame removeListeners_frame
             split: sum.splits)
  have lc: "r = Inr () \<and> disconnects s' = disconnects s \<and> emitted s' = emitted s \<and>
      (shim_enabled c \<longrightarrow> \<not> shim_flag_present s') \<and>
      (\<not> shim_enabled c \<longrightarrow> localStorage s' = localStorage s)"
    if "providerImplementation s = Some LedgerConnect" "getProvider w s = (Inr q, t)" for q t
    using assms that getProvider_frame [OF that(2)]
    by (auto simp: disconnect_def Let_def removeListeners_frame shim_flag_present_def
             split: option.splits if_split_asm)
  from frame rej none wc lc show ?thesis
    by blast
qed

text \<open>
  The theorem on a new connector, and after a \<open>connect\<close> that the user rejected over a
  relay-mediated handle whose own disconnect rejects.
\<close>

theorem disconnect_without_session_witness:
  "disconnect demo_config (demo_world WalletConnect) (constructed (Some Map.empty)) =
     (Inr (), (constructed (Some Map.empty))\<lparr>resolutions := 1, provider := Some demo_handle\<rparr>) \<and>
   fst (connect demo_config (rejecting_world WalletConnect) None (constructed (Some Map.empty))) =
     Inl (UserRejectedRequestError user_rejection) \<and>
   providerImplementation
     (snd (connect demo_config (rejecting_world WalletConnect) None
        (constructed (Some Map.empty)))) = Some WalletConnect \<and>
   fst (disconnect demo_config (rejecting_world WalletConnect)
     (snd (connect demo_config (rejecting_world WalletConnect) None
        (constructed (Some Map.empty))))) = Inl resource_unavailable \<and>
   disconnects
     (snd (disconnect demo_config (rejecting_world WalletConnect)
        (snd (connect demo_config (rejecting_world WalletConnect) None
           (constructed (Some Map.empty)))))) = 1"
proof -
  let ?s = "constructed (Some Map.empty)"
  let ?w = "demo_world WalletConnect" and ?v = "rejecting_world WalletConnect"
  let ?t = "snd (connect demo_config ?v None ?s)"
  have new: "providerImplementation ?s = None \<and> provider ?s = None \<and>
             connectKit ?w = Inr () \<and> kit_getProvider ?w (resolutions ?s) = Inr demo_handle"
    by (simp add: constructed_def demo_world_def)
  have run: "disconnect demo_config ?w ?s =
               (fst (disconnect demo_config ?w ?s), snd (disconnect demo_config ?w ?s))"
    by simp
  from disconnect_without_session [OF run, of demo_handle] new
  have "fst (disconnect demo_config ?w ?s) = Inr () \<and>
        snd (disconnect demo_config ?w ?s) =
          removeListeners demo_handle (?s\<lparr>resolutions := Suc (resolutions ?s),
                                            provider := Some demo_handle\<rparr>)"
    by blast
  then have 1: "disconnect demo_config ?w ?s =
                  (Inr (), ?s\<lparr>resolutions := 1, provider := Some demo_handle\<rparr>)"
    by (simp add: prod_eq_iff removeListeners_def constructed_def)
  have rejected: "fst (connect demo_config ?v None ?s) =
                    Inl (UserRejectedRequestError user_rejection)"
    by (simp add: rejecting_world_def demo_defs op_defs connect_catch_def user_rejection_def
                  Let_def)
  have left: "providerImplementation ?t = Some WalletConnect \<and> disconnects ?t = 0 \<and>
              (\<exists>q s1. getProvider ?v ?t = (Inr q, s1))"
    by (simp add: rejecting_world_def demo_defs op_defs connect_catch_def user_rejection_def
                  Let_def)
  have pd: "fst (provider_disconnect ?v 0) = Inl resource_unavailable"
    by (simp add: rejecting_world_def)
  have run': "disconnect demo_config ?v ?t =
                (fst (disconnect demo_config ?v ?t), snd (disconnect demo_config ?v ?t))"
    by simp
  from disconnect_without_session [OF run'] left pd
  have 2: "fst (disconnect demo_config ?v ?t) = Inl resource_unavailable \<and>
           disconnects (snd (disconnect demo_config ?v ?t)) = 1"
    by auto
  from 1 rejected left 2 show ?thesis
    by blast
qed

text \<open>
  C8 as the spec words it fails. On a new connector \<open>disconnect\<close> returns normally but
  has resolved and cached the handle, and it rejects when the resolver rejects. After a
  \<open>connect\<close> that the user rejected, \<open>disconnect\<close> rejects when the relay-mediated
  handle's own disconnect rejects, and over the direct bridge it returns normally but has
  removed the flag that was in storage.
\<close>

theorem disconnect_without_session_counterexample:
  "fst (disconnect demo_config (demo_world WalletConnect) (constructed (Some Map.empty))) =
     Inr () \<and>
   snd (disconnect demo_config (demo_world WalletConnect) (constructed (Some Map.empty))) \<noteq>
     constructed (Some Map.empty) \<and>
   provider (constructed (Some Map.empty)) = None \<and>
   provider (snd (disconnect demo_config (demo_world WalletConnect)
                    (constructed (Some Map.empty)))) = Some demo_handle \<and>
   fst (disconnect demo_config
          ((demo_world WalletConnect)\<lparr>kit_getProvider := \<lambda>_. Inl resolver_failure\<rparr>)
          (constructed (Some Map.empty))) = Inl resolver_failure \<and>
   fst (connect demo_config (rejecting_world WalletConnect) None (constructed (Some Map.empty))) =
     Inl (UserRejectedRequestError user_rejection) \<and>
   fst (disconnect demo_config (rejecting_world WalletConnect)
     (snd (connect demo_config (rejecting_world WalletConnect) None
        (constructed (Some Map.empty))))) = Inl resource_unavailable \<and>
   fst (connect demo_config (rejecting_world LedgerConnect) None
          (constructed (Some [shimDisconnectKey \<mapsto> ''true'']))) =
     Inl (UserRejectedRequestError user_rejection) \<and>
   shim_flag_present
     (snd (connect demo_config (rejecting_world LedgerConnect) None
        (constructed (Some [shimDisconnectKey \<mapsto> ''true''])))) \<and>
   fst (disconnect demo_config (rejecting_world LedgerConnect)
     (snd (connect demo_config (rejecting_world LedgerConnect) None
        (constructed (Some [shimDisconnectKey \<mapsto> ''true'']))))) = Inr () \<and>
   \<not> shim_flag_present
     (snd (disconnect demo_config (rejecting_world LedgerConnect)
       (snd (connect demo_config (rejecting_world LedgerConnect) None
          (constructed (Some [shimDisconnectKey \<mapsto> ''true'']))))))"
  by (simp add: rejecting_world_def demo_defs op_defs connect_catch_def user_rejection_def
                Let_def)

subsection \<open>The handlers and the shim flag\<close>

text \<open>
  C10. A forwarded \<^verbatim>\<open>accountsChanged\<close> event with an empty list emits the disconnect
  signal and leaves storage, hence the Disconnect Shim Flag, unchanged. The handlers of
  \<^verbatim>\<open>accountsChanged\<close> and \<^verbatim>\<open>chainChanged\<close> never change storage; the handler of
  the transport's \<^verbatim>\<open>disconnect\<close> event emits the disconnect signal and, with the shim
  option enabled, clears the flag (without the option it leaves storage unchanged too).
\<close>

theorem handlers_and_shim_flag:
  "onAccountsChanged w [] s = (Inr (), s\<lparr>emitted := emitted s @ [Disconnect]\<rparr>) \<and>
   localStorage (snd (onAccountsChanged w accounts s)) = localStorage s \<and>
   localStorage (snd (onChainChanged c w raw s)) = localStorage s \<and>
   emitted (snd (onDisconnect c s)) = emitted s @ [Disconnect] \<and>
   (shim_enabled c \<longrightarrow> \<not> shim_flag_present (snd (onDisconnect c s))) \<and>
   (\<not> shim_enabled c \<longrightarrow> localStorage (snd (onDisconnect c s)) = localStorage s)"
  by (auto simp: onAccountsChanged_def onChainChanged_def onDisconnect_def emit_def Let_def
        shim_flag_present_def split: list.splits sum.splits option.splits)

text \<open>The theorem with the flag in storage.\<close>

theorem handlers_and_shim_flag_witness:
  "shim_enabled demo_config \<and>
   shim_flag_present (constructed (Some [shimDisconnectKey \<mapsto> ''true''])) \<and>
   shim_flag_present
     (snd (onAccountsChanged (demo_world WalletConnect) []
        (constructed (Some [shimDisconnectKey \<mapsto> ''true''])))) \<and>
   \<not> shim_flag_present
     (snd (onDisconnect demo_config (constructed (Some [shimDisconnectKey \<mapsto> ''true'']))))"
proof -
  let ?s = "constructed (Some [shimDisconnectKey \<mapsto> ''true''])"
  have en: "shim_enabled demo_config"
    by (simp add: shim_enabled_def demo_config_def)
  have pre: "shim_flag_present ?s"
    by (simp add: shim_flag_present_def constructed_def)
  note inst = handlers_and_shim_flag [of "demo_world WalletConnect" ?s "[]" demo_config]
  from inst have "localStorage (snd (onAccountsChanged (demo_world WalletConnect) [] ?s)) =
      localStorage ?s"
    by blast
  with pre have kept: "shim_flag_present (snd (onAccountsChanged (demo_world WalletConnect) [] ?s))"
    by (simp add: shim_flag_present_def)
  from inst en have "\<not> shim_flag_present (snd (onDisconnect demo_config ?s))"
    by blast
  with en pre kept show ?thesis
    by blast
qed

end
